theory Spec2Isabelle
  imports Complex_Main
begin

section \<open>Numbers, angles and vectors\<close>

text \<open>
  The simulation computes on JavaScript numbers. They are modelled as the reals: every
  statement below is about the arithmetic the code writes down, not about the rounding
  of IEEE doubles.

  \<open>a % b\<close> in JavaScript is the remainder of the division truncated towards zero, so the
  result carries the sign of the dividend.
\<close>

definition js_trunc :: "real \<Rightarrow> int" where
  "js_trunc q = (if 0 \<le> q then \<lfloor>q\<rfloor> else \<lceil>q\<rceil>)"

definition js_rem :: "real \<Rightarrow> real \<Rightarrow> real" where
  "js_rem a b = a - b * of_int (js_trunc (a / b))"

text \<open>
  \<^verbatim>\<open>
  const shortestAngleDiff = (current: number, target: number): number => {
    const M2PI = Math.PI * 2;
    let d = (target - current) % M2PI;
    if (d > Math.PI) d -= M2PI;
    else if (d < -Math.PI) d += M2PI;
    return d;
  };
  \<close>
\<close>

definition shortestAngleDiff :: "real \<Rightarrow> real \<Rightarrow> real" where
  "shortestAngleDiff current target =
     (let M2PI = pi * 2;
          d = js_rem (target - current) M2PI
      in if d > pi then d - M2PI
         else if d < - pi then d + M2PI
         else d)"

text \<open>
  \<open>THREE.Vector3\<close>: three numbers. The fields are named \<open>vx\<close>, \<open>vy\<close>, \<open>vz\<close> (the
  source's \<open>x\<close>, \<open>y\<close>, \<open>z\<close>). The operations are those of three.js the source calls;
  \<open>clone\<close> and \<open>copy\<close> are the identity on values. \<open>normalize\<close> divides by
  \<open>length() || 1\<close>, so the zero vector stays zero.
\<close>

record Vector3 =
  vx :: real
  vy :: real
  vz :: real

definition vec3 :: "real \<Rightarrow> real \<Rightarrow> real \<Rightarrow> Vector3" where
  "vec3 a b c = \<lparr>vx = a, vy = b, vz = c\<rparr>"

definition add :: "Vector3 \<Rightarrow> Vector3 \<Rightarrow> Vector3" where
  "add u v = \<lparr>vx = vx u + vx v, vy = vy u + vy v, vz = vz u + vz v\<rparr>"

definition sub :: "Vector3 \<Rightarrow> Vector3 \<Rightarrow> Vector3" where
  "sub u v = \<lparr>vx = vx u - vx v, vy = vy u - vy v, vz = vz u - vz v\<rparr>"

definition multiplyScalar :: "Vector3 \<Rightarrow> real \<Rightarrow> Vector3" where
  "multiplyScalar v s = \<lparr>vx = vx v * s, vy = vy v * s, vz = vz v * s\<rparr>"

definition addScaledVector :: "Vector3 \<Rightarrow> Vector3 \<Rightarrow> real \<Rightarrow> Vector3" where
  "addScaledVector u v s =
     \<lparr>vx = vx u + vx v * s, vy = vy u + vy v * s, vz = vz u + vz v * s\<rparr>"

definition lengthSq :: "Vector3 \<Rightarrow> real" where
  "lengthSq v = vx v * vx v + vy v * vy v + vz v * vz v"

definition distanceToSquared :: "Vector3 \<Rightarrow> Vector3 \<Rightarrow> real" where
  "distanceToSquared u v =
     (let dx = vx u - vx v; dy = vy u - vy v; dz = vz u - vz v
      in dx * dx + dy * dy + dz * dz)"

definition normalize :: "Vector3 \<Rightarrow> Vector3" where
  "normalize v =
     (let l = sqrt (lengthSq v); d = (if l = 0 then 1 else l)
      in \<lparr>vx = vx v / d, vy = vy v / d, vz = vz v / d\<rparr>)"

definition crossVectors :: "Vector3 \<Rightarrow> Vector3 \<Rightarrow> Vector3" where
  "crossVectors a b =
     \<lparr>vx = vy a * vz b - vz a * vy b,
      vy = vz a * vx b - vx a * vz b,
      vz = vx a * vy b - vy a * vx b\<rparr>"

text \<open>
  \<open>Math.atan2(y, x)\<close>. Only its being a function of the two arguments matters below, so
  it is given by its usual case analysis on the quadrant.
\<close>

definition atan2 :: "real \<Rightarrow> real \<Rightarrow> real" where
  "atan2 b a =
     (if a > 0 then arctan (b / a)
      else if a < 0 \<and> b \<ge> 0 then arctan (b / a) + pi
      else if a < 0 then arctan (b / a) - pi
      else if b > 0 then pi / 2
      else if b < 0 then - pi / 2
      else 0)"

section \<open>Input merge (App.tsx)\<close>

text \<open>
  \<^verbatim>\<open>
  export interface JoystickOutput { x: number; y: number; active: boolean; }
  const initialJoystickData: JoystickOutput = { x: 0, y: 0, active: false };
  \<close>
  The fields \<open>x\<close> and \<open>y\<close> are named \<open>jx\<close> and \<open>jy\<close>.
\<close>

record JoystickOutput =
  jx :: real
  jy :: real
  active :: bool

definition initialJoystickData :: JoystickOutput where
  "initialJoystickData = \<lparr>jx = 0, jy = 0, active = False\<rparr>"

text \<open>
  \<^verbatim>\<open>
  const effectiveJoystickData = useMemo<JoystickOutput>(() => {
    if (keyboardMovement.active) { return keyboardMovement; }
    if (joystickData.active) { return joystickData; }
    return initialJoystickData; // Neither is active
  }, [keyboardMovement, joystickData]);
  \<close>
\<close>

definition effectiveJoystickData :: "JoystickOutput \<Rightarrow> JoystickOutput \<Rightarrow> JoystickOutput" where
  "effectiveJoystickData keyboardMovement joystickData =
     (if active keyboardMovement then keyboardMovement
      else if active joystickData then joystickData
      else initialJoystickData)"

text \<open>
  \<open>updateKeyboardMovementState\<close>: the keyboard signal computed from the set of pressed
  keys (the lower-cased \<open>event.key\<close> strings). Later keys overwrite earlier ones on the
  same axis; a diagonal is scaled to unit length.
\<close>

definition updateKeyboardMovementState :: "string set \<Rightarrow> JoystickOutput" where
  "updateKeyboardMovementState pressedKeys =
     (let y0 = (if ''w'' \<in> pressedKeys then - 1 else 0);
          y1 = (if ''s'' \<in> pressedKeys then 1 else y0);
          x0 = (if ''a'' \<in> pressedKeys then - 1 else 0);
          x1 = (if ''d'' \<in> pressedKeys then 1 else x0);
          act = (''w'' \<in> pressedKeys \<or> ''s'' \<in> pressedKeys
                 \<or> ''a'' \<in> pressedKeys \<or> ''d'' \<in> pressedKeys)
      in if x1 \<noteq> 0 \<and> y1 \<noteq> 0
         then (let len = sqrt (x1 * x1 + y1 * y1)
               in \<lparr>jx = x1 / len, jy = y1 / len, active = act\<rparr>)
         else \<lparr>jx = x1, jy = y1, active = act\<rparr>)"

section \<open>Constants of the scene (ThreeScene)\<close>

definition PLAYER_ATTACK_EFFECT_DURATION :: real where
  "PLAYER_ATTACK_EFFECT_DURATION = 0.3"

definition CHARACTER_BASE_Y :: real where
  "CHARACTER_BASE_Y = (0.8 / 2) + 0.4"

definition MIN_CAMERA_Y_POSITION :: real where
  "MIN_CAMERA_Y_POSITION = 0.5"

definition ENEMY_MOVE_SPEED :: real where
  "ENEMY_MOVE_SPEED = 3.2"

definition ENEMY_ROTATION_SPEED :: real where
  "ENEMY_ROTATION_SPEED = pi * 1.8"

definition ENEMY_ROAM_TARGET_UPDATE_MIN_INTERVAL :: real where
  "ENEMY_ROAM_TARGET_UPDATE_MIN_INTERVAL = 4"

definition ENEMY_ROAM_TARGET_UPDATE_MAX_INTERVAL :: real where
  "ENEMY_ROAM_TARGET_UPDATE_MAX_INTERVAL = 8"

definition ENEMY_TARGET_REACH_THRESHOLD :: real where
  "ENEMY_TARGET_REACH_THRESHOLD = 0.5"

definition ENEMY_DETECTION_RANGE_SQR :: real where
  "ENEMY_DETECTION_RANGE_SQR = (50 * 0.45) ^ 2"

definition ENEMY_ATTACK_RANGE_SQR :: real where
  "ENEMY_ATTACK_RANGE_SQR = 2.2 ^ 2"

definition ENEMY_ATTACK_COOLDOWN :: real where
  "ENEMY_ATTACK_COOLDOWN = 2.5"

definition ENEMY_ATTACK_EFFECT_DURATION :: real where
  "ENEMY_ATTACK_EFFECT_DURATION = 0.45"

definition TOWER_AVOIDANCE_RANGE_ENEMY_SQR :: real where
  "TOWER_AVOIDANCE_RANGE_ENEMY_SQR = (50 * 0.20) ^ 2"

definition FLEE_DISTANCE_FROM_TOWER :: real where
  "FLEE_DISTANCE_FROM_TOWER = 50 * 0.1"

definition NUM_SMOKE_PUFFS :: nat where
  "NUM_SMOKE_PUFFS = 15"

definition SMOKE_PUFF_LIFETIME :: real where
  "SMOKE_PUFF_LIFETIME = 1.2"

definition SMOKE_PUFF_START_OPACITY :: real where
  "SMOKE_PUFF_START_OPACITY = 0.6"

definition SMOKE_PUFF_START_SCALE :: real where
  "SMOKE_PUFF_START_SCALE = 0.2"

definition SMOKE_PUFF_END_SCALE :: real where
  "SMOKE_PUFF_END_SCALE = 1.5"

definition mapRadius :: real where
  "mapRadius = 50"

definition blueFountainPosition :: Vector3 where
  "blueFountainPosition = vec3 0 0 (- mapRadius * 0.88)"

definition redFountainPosition :: Vector3 where
  "redFountainPosition = vec3 0 0 (mapRadius * 0.88)"

section \<open>Random roam targets\<close>

text \<open>
  \<open>Math.random()\<close> is an input of the model: \<open>rnd :: nat \<Rightarrow> real\<close> is the sequence of
  values the calls return (each in \<open>[0, 1)\<close>), and a function that draws numbers takes
  the index of the next value and returns the index after its last draw.

  \<^verbatim>\<open>
  const getRandomRoamTarget = (mapRadius, currentPos, blueFountainPos, redFountainPos) => {
      let x, z;
      const boundary = mapRadius * 0.95;
      const blueBaseAvoidRadius = mapRadius * 0.3;
      const redBaseAvoidRadius = mapRadius * 0.2;
      for (let i = 0; i < 10; i++) {
          x = (Math.random() - 0.5) * 2 * boundary;
          z = (Math.random() - 0.5) * 2 * boundary;
          const targetPos = new THREE.Vector3(x, 0, z);
          if (targetPos.lengthSq() > boundary * boundary) continue;
          if (targetPos.distanceToSquared(blueFountainPos) < blueBaseAvoidRadius * blueBaseAvoidRadius
              && currentPos.z > 0) continue;
          if (targetPos.distanceToSquared(redFountainPos) < redBaseAvoidRadius * redBaseAvoidRadius) continue;
          return targetPos;
      }
      return new THREE.Vector3((Math.random() - 0.5) * boundary, 0, (Math.random() - 0.5) * boundary);
  };
  \<close>
  \<open>roamAttempts n\<close> is the loop with \<open>n\<close> iterations left; \<open>None\<close> is falling out of it.
\<close>

fun roamAttempts ::
  "nat \<Rightarrow> real \<Rightarrow> Vector3 \<Rightarrow> Vector3 \<Rightarrow> Vector3 \<Rightarrow> (nat \<Rightarrow> real) \<Rightarrow> nat \<Rightarrow> Vector3 option \<times> nat"
where
  "roamAttempts 0 mapR currentPos blueFountainPos redFountainPos rnd i = (None, i)"
| "roamAttempts (Suc n) mapR currentPos blueFountainPos redFountainPos rnd i =
     (let boundary = mapR * 0.95;
          blueBaseAvoidRadius = mapR * 0.3;
          redBaseAvoidRadius = mapR * 0.2;
          x = (rnd i - 0.5) * 2 * boundary;
          z = (rnd (i + 1) - 0.5) * 2 * boundary;
          targetPos = vec3 x 0 z
      in if lengthSq targetPos > boundary * boundary
         then roamAttempts n mapR currentPos blueFountainPos redFountainPos rnd (i + 2)
         else if distanceToSquared targetPos blueFountainPos < blueBaseAvoidRadius * blueBaseAvoidRadius
                 \<and> vz currentPos > 0
         then roamAttempts n mapR currentPos blueFountainPos redFountainPos rnd (i + 2)
         else if distanceToSquared targetPos redFountainPos < redBaseAvoidRadius * redBaseAvoidRadius
         then roamAttempts n mapR currentPos blueFountainPos redFountainPos rnd (i + 2)
         else (Some targetPos, i + 2))"

definition getRandomRoamTarget ::
  "real \<Rightarrow> Vector3 \<Rightarrow> Vector3 \<Rightarrow> Vector3 \<Rightarrow> (nat \<Rightarrow> real) \<Rightarrow> nat \<Rightarrow> Vector3 \<times> nat"
where
  "getRandomRoamTarget mapR currentPos blueFountainPos redFountainPos rnd i =
     (case roamAttempts 10 mapR currentPos blueFountainPos redFountainPos rnd i of
        (Some targetPos, j) \<Rightarrow> (targetPos, j)
      | (None, j) \<Rightarrow>
          (let boundary = mapR * 0.95
           in (vec3 ((rnd j - 0.5) * boundary) 0 ((rnd (j + 1) - 0.5) * boundary), j + 2)))"

section \<open>Colours and materials\<close>

text \<open>
  \<open>THREE.Color\<close> with components \<open>cr\<close>, \<open>cg\<close>, \<open>cb\<close> (the library's \<open>r\<close>, \<open>g\<close>, \<open>b\<close>), and the
  three fields of \<open>MeshStandardMaterial\<close> the simulation writes. \<open>setHex\<close> reads the three
  bytes of the number as the components scaled to \<open>[0, 1]\<close>; the colour-space conversion
  of three.js is not modelled (it leaves \<open>0x000000\<close> and \<open>0xffffff\<close> as they are).
\<close>

record Color =
  cr :: real
  cg :: real
  cb :: real

definition setHex :: "nat \<Rightarrow> Color" where
  "setHex h = \<lparr>cr = real ((h div 65536) mod 256) / 255,
               cg = real ((h div 256) mod 256) / 255,
               cb = real (h mod 256) / 255\<rparr>"

definition lerpColors :: "Color \<Rightarrow> Color \<Rightarrow> real \<Rightarrow> Color" where
  "lerpColors c1 c2 alpha =
     \<lparr>cr = cr c1 + (cr c2 - cr c1) * alpha,
      cg = cg c1 + (cg c2 - cg c1) * alpha,
      cb = cb c1 + (cb c2 - cb c1) * alpha\<rparr>"

record Material =
  color :: Color
  emissive :: Color
  emissiveIntensity :: real

text \<open>The part of a character's \<open>THREE.Mesh\<close> the simulation writes.\<close>

record CharacterMesh =
  meshPosition :: Vector3
  meshRotationY :: real
  material :: Material

section \<open>The smoke-puff pool\<close>

text \<open>
  The pool holds \<open>NUM_SMOKE_PUFFS\<close> meshes created once at setup. A mesh is identified by
  its index of creation (the source compares meshes by reference, \<open>p.mesh === puffMesh\<close>);
  what the simulation writes into a mesh is kept in \<open>puffMeshes\<close>.
\<close>

record PuffMesh =
  visible :: bool
  puffPosition :: Vector3
  opacity :: real
  scale :: real

record ActiveSmokePuff =
  mesh :: nat
  lifetime :: real
  initialLifetime :: real
  velocity :: Vector3

record SmokeState =
  smokeTexture :: bool
  smokePuffsPool :: "nat list"
  activeSmokePuffs :: "ActiveSmokePuff list"
  puffMeshes :: "nat \<Rightarrow> PuffMesh"

text \<open>
  The state after setup: the texture is set, the pool holds the fifteen meshes, all
  invisible with opacity 0, and no puff is active.
\<close>

definition initialSmokeState :: SmokeState where
  "initialSmokeState =
     \<lparr>smokeTexture = True,
      smokePuffsPool = [0 ..< NUM_SMOKE_PUFFS],
      activeSmokePuffs = [],
      puffMeshes = (\<lambda>_. \<lparr>visible = False, puffPosition = vec3 0 0 0, opacity = 0, scale = 1\<rparr>)\<rparr>"

text \<open>
  \<^verbatim>\<open>
  const emitSmokePuffs = useCallback((position: THREE.Vector3, countMultiplier = 1) => {
    if (!smokeTextureRef.current) return;
    let puffsEmitted = 0;
    const puffsToEmit = Math.floor((5 + Math.floor(Math.random() * 4)) * countMultiplier);
    for (const puffMesh of smokePuffsPoolRef.current) {
      if (puffsEmitted >= puffsToEmit) break;
      const isActive = activeSmokePuffsRef.current.some(p => p.mesh === puffMesh);
      if (!isActive) {
        puffMesh.visible = true; puffMesh.position.copy(position);
        puffMesh.position.x += (Math.random() - 0.5) * 0.5;
        puffMesh.position.z += (Math.random() - 0.5) * 0.5;
        puffMesh.position.y += 0.2;
        puffMesh.material.opacity = SMOKE_PUFF_START_OPACITY;
        puffMesh.scale.setScalar(SMOKE_PUFF_START_SCALE);
        const velocity = new THREE.Vector3((Math.random() - 0.5) * 0.8,
                                           0.8 + Math.random() * 0.7, (Math.random() - 0.5) * 0.8);
        activeSmokePuffsRef.current.push({ mesh: puffMesh,
          lifetime: SMOKE_PUFF_LIFETIME * (0.8 + Math.random() * 0.4),
          initialLifetime: SMOKE_PUFF_LIFETIME, velocity });
        puffsEmitted++;
      }
    }
  }, []);
  \<close>
  \<open>emitLoop\<close> is the \<open>for\<close> loop over the rest of the pool.
\<close>

fun emitLoop ::
  "nat list \<Rightarrow> nat \<Rightarrow> int \<Rightarrow> Vector3 \<Rightarrow> (nat \<Rightarrow> real) \<Rightarrow> nat \<Rightarrow> SmokeState \<Rightarrow> SmokeState \<times> nat"
where
  "emitLoop [] puffsEmitted puffsToEmit position rnd i st = (st, i)"
| "emitLoop (puffMesh # rest) puffsEmitted puffsToEmit position rnd i st =
     (if int puffsEmitted \<ge> puffsToEmit then (st, i)
      else if list_ex (\<lambda>p. mesh p = puffMesh) (activeSmokePuffs st)
      then emitLoop rest puffsEmitted puffsToEmit position rnd i st
      else
        (let m = \<lparr>visible = True,
                  puffPosition = vec3 (vx position + (rnd i - 0.5) * 0.5)
                                      (vy position + 0.2)
                                      (vz position + (rnd (i + 1) - 0.5) * 0.5),
                  opacity = SMOKE_PUFF_START_OPACITY,
                  scale = SMOKE_PUFF_START_SCALE\<rparr>;
             vel = vec3 ((rnd (i + 2) - 0.5) * 0.8) (0.8 + rnd (i + 3) * 0.7) ((rnd (i + 4) - 0.5) * 0.8);
             puff = \<lparr>mesh = puffMesh,
                     lifetime = SMOKE_PUFF_LIFETIME * (0.8 + rnd (i + 5) * 0.4),
                     initialLifetime = SMOKE_PUFF_LIFETIME,
                     velocity = vel\<rparr>;
             st' = st\<lparr>activeSmokePuffs := activeSmokePuffs st @ [puff],
                      puffMeshes := (puffMeshes st)(puffMesh := m)\<rparr>
         in emitLoop rest (puffsEmitted + 1) puffsToEmit position rnd (i + 6) st'))"

definition emitSmokePuffs ::
  "Vector3 \<Rightarrow> real \<Rightarrow> (nat \<Rightarrow> real) \<Rightarrow> nat \<Rightarrow> SmokeState \<Rightarrow> SmokeState \<times> nat"
where
  "emitSmokePuffs position countMultiplier rnd i st =
     (if \<not> smokeTexture st then (st, i)
      else
        (let puffsToEmit = \<lfloor>(5 + of_int \<lfloor>rnd i * 4\<rfloor>) * countMultiplier\<rfloor>
         in emitLoop (smokePuffsPool st) 0 puffsToEmit position rnd (i + 1) st))"

text \<open>
  The smoke update of a frame (\<open>THREE.MathUtils.lerp(x, y, t) = (1 - t) * x + t * y\<close>; the
  billboard orientation is not modelled):
  \<^verbatim>\<open>
  activeSmokePuffsRef.current = activeSmokePuffsRef.current.filter(puff => {
      puff.lifetime -= delta;
      if (puff.lifetime <= 0) { puff.mesh.visible = false; return false; }
      puff.mesh.position.addScaledVector(puff.velocity, delta);
      const t = 1 - (puff.lifetime / puff.initialLifetime);
      puff.mesh.material.opacity = SMOKE_PUFF_START_OPACITY * (1 - t);
      puff.mesh.scale.setScalar(THREE.MathUtils.lerp(SMOKE_PUFF_START_SCALE, SMOKE_PUFF_END_SCALE, t));
      return true;
  });
  \<close>
\<close>

fun updatePuffs ::
  "ActiveSmokePuff list \<Rightarrow> real \<Rightarrow> (nat \<Rightarrow> PuffMesh) \<Rightarrow> ActiveSmokePuff list \<times> (nat \<Rightarrow> PuffMesh)"
where
  "updatePuffs [] delta ms = ([], ms)"
| "updatePuffs (puff # rest) delta ms =
     (let puff' = puff\<lparr>lifetime := lifetime puff - delta\<rparr>
      in if lifetime puff' \<le> 0
         then updatePuffs rest delta (ms(mesh puff := (ms (mesh puff))\<lparr>visible := False\<rparr>))
         else
           (let t = 1 - (lifetime puff' / initialLifetime puff');
                m = ms (mesh puff);
                m' = m\<lparr>puffPosition := addScaledVector (puffPosition m) (velocity puff') delta,
                       opacity := SMOKE_PUFF_START_OPACITY * (1 - t),
                       scale := (1 - t) * SMOKE_PUFF_START_SCALE + t * SMOKE_PUFF_END_SCALE\<rparr>;
                (kept, ms') = updatePuffs rest delta (ms(mesh puff := m'))
            in (puff' # kept, ms')))"

definition smokePuffsUpdate :: "real \<Rightarrow> SmokeState \<Rightarrow> SmokeState" where
  "smokePuffsUpdate delta st =
     (let (kept, ms) = updatePuffs (activeSmokePuffs st) delta (puffMeshes st)
      in st\<lparr>activeSmokePuffs := kept, puffMeshes := ms\<rparr>)"

text \<open>
  What can happen to the pool: an \<open>emitSmokePuffs\<close> call (from the player's attack or from
  the enemy's) or the smoke update of a frame.
\<close>

datatype SmokeEvent = Emit Vector3 real | Frame real

fun smokeStep :: "(nat \<Rightarrow> real) \<Rightarrow> SmokeState \<times> nat \<Rightarrow> SmokeEvent \<Rightarrow> SmokeState \<times> nat" where
  "smokeStep rnd (st, i) (Emit position countMultiplier) = emitSmokePuffs position countMultiplier rnd i st"
| "smokeStep rnd (st, i) (Frame delta) = (smokePuffsUpdate delta st, i)"

definition smokeRun :: "(nat \<Rightarrow> real) \<Rightarrow> SmokeEvent list \<Rightarrow> SmokeState \<times> nat \<Rightarrow> SmokeState \<times> nat" where
  "smokeRun rnd evs s = foldl (smokeStep rnd) s evs"

text \<open>
  The invariant of the pool: its fifteen meshes are distinct, and the active puffs hold
  distinct meshes of the pool.
\<close>

definition poolInv :: "SmokeState \<Rightarrow> bool" where
  "poolInv st =
     (distinct (smokePuffsPool st)
      \<and> length (smokePuffsPool st) = NUM_SMOKE_PUFFS
      \<and> distinct (map mesh (activeSmokePuffs st))
      \<and> set (map mesh (activeSmokePuffs st)) \<subseteq> set (smokePuffsPool st))"

section \<open>The orbit camera\<close>

text \<open>
  The refs of the camera drag, and the pointer-move handler.
  \<open>THREE.MathUtils.clamp(v, lo, hi)\<close> is \<open>Math.max(lo, Math.min(hi, v))\<close>.
  \<^verbatim>\<open>
  const onWindowPointerMoveCallback = (event: PointerEvent) => {
      if (!cameraIsDraggingRef.current || event.pointerId !== activeCameraPointerIdRef.current) return;
      const deltaX = event.clientX - cameraLastPointerPosRef.current.x;
      const deltaY = event.clientY - cameraLastPointerPosRef.current.y;
      let newPhi = cameraPhiRef.current - deltaY * 0.005;
      const MIN_PHI_ABS = 0.1;
      const MAX_PHI_ABS = Math.PI - 0.1;
      const targetYForCamera = cameraTargetRef.current.y;
      const radius = cameraRadiusRef.current;
      let maxPhiForGround = MAX_PHI_ABS;
      if (radius > 0.001) {
          const cosVal = (MIN_CAMERA_Y_POSITION - targetYForCamera) / radius;
          if (cosVal >= -1 && cosVal <= 1) {
              maxPhiForGround = Math.min(MAX_PHI_ABS, Math.acos(cosVal));
          } else if (cosVal > 1) {
              maxPhiForGround = Math.min(MAX_PHI_ABS, Math.PI / 2);
          }
      }
      cameraThetaRef.current -= deltaX * 0.005;
      cameraPhiRef.current = THREE.MathUtils.clamp(newPhi, MIN_PHI_ABS, maxPhiForGround);
      cameraLastPointerPosRef.current = { x: event.clientX, y: event.clientY };
  };
  \<close>
\<close>

record CameraRig =
  cameraIsDragging :: bool
  cameraLastPointerPos :: "real \<times> real"
  cameraPhi :: real
  cameraTheta :: real
  cameraRadius :: real
  cameraTarget :: Vector3
  activeCameraPointerId :: "int option"

record PointerEvent =
  pointerId :: int
  clientX :: real
  clientY :: real

definition clamp :: "real \<Rightarrow> real \<Rightarrow> real \<Rightarrow> real" where
  "clamp v lo hi = max lo (min hi v)"

definition MIN_PHI_ABS :: real where
  "MIN_PHI_ABS = 0.1"

definition MAX_PHI_ABS :: real where
  "MAX_PHI_ABS = pi - 0.1"

definition maxPhiForGround :: "real \<Rightarrow> real \<Rightarrow> real" where
  "maxPhiForGround radius targetYForCamera =
     (if radius > 0.001
      then (let cosVal = (MIN_CAMERA_Y_POSITION - targetYForCamera) / radius
            in if cosVal \<ge> - 1 \<and> cosVal \<le> 1 then min MAX_PHI_ABS (arccos cosVal)
               else if cosVal > 1 then min MAX_PHI_ABS (pi / 2)
               else MAX_PHI_ABS)
      else MAX_PHI_ABS)"

definition onWindowPointerMoveCallback :: "PointerEvent \<Rightarrow> CameraRig \<Rightarrow> CameraRig" where
  "onWindowPointerMoveCallback event rig =
     (if \<not> cameraIsDragging rig \<or> Some (pointerId event) \<noteq> activeCameraPointerId rig then rig
      else
        (let deltaX = clientX event - fst (cameraLastPointerPos rig);
             deltaY = clientY event - snd (cameraLastPointerPos rig);
             newPhi = cameraPhi rig - deltaY * 0.005
         in rig\<lparr>cameraTheta := cameraTheta rig - deltaX * 0.005,
                cameraPhi := clamp newPhi MIN_PHI_ABS
                               (maxPhiForGround (cameraRadius rig) (vy (cameraTarget rig))),
                cameraLastPointerPos := (clientX event, clientY event)\<rparr>))"

text \<open>
  The camera refs as the component creates them; the setup effect then sets the target
  to \<open>(0, CHARACTER_BASE_Y, 0)\<close>.
\<close>

definition initialCameraRig :: CameraRig where
  "initialCameraRig =
     \<lparr>cameraIsDragging = False,
      cameraLastPointerPos = (0, 0),
      cameraPhi = pi / 3.5,
      cameraTheta = 0,
      cameraRadius = 18,
      cameraTarget = vec3 0 CHARACTER_BASE_Y 0,
      activeCameraPointerId = None\<rparr>"

text \<open>
  Pointer-down on the canvas and pointer-up or pointer-cancel on the window. The argument
  \<open>captureOk\<close> says whether \<open>canvas.setPointerCapture\<close> returned (\<open>True\<close>) or threw.
  \<^verbatim>\<open>
  const handleCanvasPointerDown = (event: PointerEvent) => {
      if (event.pointerType === 'mouse' && event.button !== 0) { ...; return; }
      if (cameraIsDraggingRef.current && event.pointerId !== activeCameraPointerIdRef.current) return;
      activeCameraPointerIdRef.current = event.pointerId;
      cameraIsDraggingRef.current = true;
      cameraLastPointerPosRef.current = { x: event.clientX, y: event.clientY };
      try { canvas.setPointerCapture(event.pointerId); }
      catch (e) { cameraIsDraggingRef.current = false; activeCameraPointerIdRef.current = null; return; }
      ...
  };
  const onWindowPointerUpOrCancelCallback = (event: PointerEvent) => {
      if (event.pointerId === activeCameraPointerIdRef.current) {
          cameraIsDraggingRef.current = false;
          ...
          activeCameraPointerIdRef.current = null;
      }
  };
  \<close>
\<close>

definition handleCanvasPointerDown ::
  "string \<Rightarrow> int \<Rightarrow> bool \<Rightarrow> PointerEvent \<Rightarrow> CameraRig \<Rightarrow> CameraRig"
where
  "handleCanvasPointerDown pointerType button captureOk event rig =
     (if pointerType = ''mouse'' \<and> button \<noteq> 0 then rig
      else if cameraIsDragging rig \<and> Some (pointerId event) \<noteq> activeCameraPointerId rig then rig
      else if captureOk
      then rig\<lparr>activeCameraPointerId := Some (pointerId event),
               cameraIsDragging := True,
               cameraLastPointerPos := (clientX event, clientY event)\<rparr>
      else rig\<lparr>activeCameraPointerId := None,
               cameraIsDragging := False,
               cameraLastPointerPos := (clientX event, clientY event)\<rparr>)"

definition onWindowPointerUpOrCancelCallback :: "PointerEvent \<Rightarrow> CameraRig \<Rightarrow> CameraRig" where
  "onWindowPointerUpOrCancelCallback event rig =
     (if Some (pointerId event) = activeCameraPointerId rig
      then rig\<lparr>cameraIsDragging := False, activeCameraPointerId := None\<rparr>
      else rig)"

section \<open>The player\<close>

text \<open>
  \<open>PlayerState\<close> as the source declares it; \<open>meshRef\<close> holds the mesh the ref points to.
  The frame function \<open>animate\<close> runs the player logic, then the enemy logic, then the
  smoke update, each under a guard that its refs are set; the functions below are the
  guarded bodies, for a frame in which the refs are set (between setup and teardown).
\<close>

record PlayerState =
  meshRef :: CharacterMesh
  position :: Vector3
  rotationY :: real
  originalColor :: Color

record PlayerRefs =
  playerState :: PlayerState
  playerWalkAnimationTime :: real
  lastAttackTrigger :: int
  playerAttackEffectActive :: bool
  playerAttackEffectTimer :: real

text \<open>
  The arena test both actors apply to a tentative position:
  \<open>Math.abs(position.x) + Math.abs(position.z) > mapRadius * 0.98\<close>.
\<close>

definition outsideArena :: "Vector3 \<Rightarrow> bool" where
  "outsideArena p = (\<bar>vx p\<bar> + \<bar>vz p\<bar> > mapRadius * 0.98)"

text \<open>
  The effect on \<open>attackTrigger\<close>, with the player and its mesh set
  (\<open>0xffffff = 16777215\<close>):
  \<^verbatim>\<open>
  if (attackTrigger > lastAttackTriggerRef.current) {
      lastAttackTriggerRef.current = attackTrigger;
      const player = playerStateRef.current;
      if (!player || !player.meshRef.current) return;
      playerAttackEffectActiveRef.current = true;
      playerAttackEffectTimerRef.current = 0;
      const material = ...;
      material.color.lerpColors(player.originalColor, new THREE.Color(0xffffff), 0.3);
      material.emissive.copy(player.originalColor);
      material.emissiveIntensity = 0.7;
      emitSmokePuffs(player.position);
  }
  \<close>
\<close>

definition attackTriggerEffect ::
  "int \<Rightarrow> (nat \<Rightarrow> real) \<Rightarrow> PlayerRefs \<times> SmokeState \<times> nat \<Rightarrow> PlayerRefs \<times> SmokeState \<times> nat"
where
  "attackTriggerEffect attackTrigger rnd s =
     (case s of (refs, smoke, i) \<Rightarrow>
        if attackTrigger > lastAttackTrigger refs
        then
          (let player = playerState refs;
               m = (material (meshRef player))
                     \<lparr>color := lerpColors (originalColor player) (setHex 16777215) 0.3,
                      emissive := originalColor player,
                      emissiveIntensity := 0.7\<rparr>;
               player' = player\<lparr>meshRef := (meshRef player)\<lparr>material := m\<rparr>\<rparr>;
               (smoke', i') = emitSmokePuffs (position player) 1 rnd i smoke
           in (refs\<lparr>lastAttackTrigger := attackTrigger,
                    playerAttackEffectActive := True,
                    playerAttackEffectTimer := 0,
                    playerState := player'\<rparr>, smoke', i'))
        else (refs, smoke, i))"

text \<open>
  The attack flash of the player, advanced by a frame:
  \<^verbatim>\<open>
  if (playerAttackEffectActiveRef.current) {
      playerAttackEffectTimerRef.current += delta;
      if (playerAttackEffectTimerRef.current >= PLAYER_ATTACK_EFFECT_DURATION) {
          playerAttackEffectActiveRef.current = false;
          playerAttackEffectTimerRef.current = 0;
          material.color.copy(player.originalColor);
          material.emissive.setHex(0x000000);
          material.emissiveIntensity = 0;
      }
  }
  \<close>
\<close>

definition playerAttackEffect :: "real \<Rightarrow> PlayerRefs \<Rightarrow> PlayerRefs" where
  "playerAttackEffect delta refs =
     (if playerAttackEffectActive refs
      then
        (let t = playerAttackEffectTimer refs + delta
         in if t \<ge> PLAYER_ATTACK_EFFECT_DURATION
            then
              (let player = playerState refs;
                   m = (material (meshRef player))
                         \<lparr>color := originalColor player,
                          emissive := setHex 0,
                          emissiveIntensity := 0\<rparr>
               in refs\<lparr>playerAttackEffectActive := False,
                       playerAttackEffectTimer := 0,
                       playerState := player\<lparr>meshRef := (meshRef player)\<lparr>material := m\<rparr>\<rparr>\<rparr>)
            else refs\<lparr>playerAttackEffectTimer := t\<rparr>)
      else refs)"

text \<open>
  The movement vector and the target rotation of the player in a frame.
  \<open>cameraWorldDirection\<close> is the camera's direction after \<open>y = 0\<close> and \<open>normalize()\<close>;
  \<open>cameraUp\<close> is \<open>camera.up\<close>.
  \<^verbatim>\<open>
  let moveVector = new THREE.Vector3();
  let targetRotation = player.rotationY;
  if (joyInput.active) {
      playerWalkAnimationTimeRef.current += delta * 8;
      const forwardAmount = -joyInput.y;
      const strafeAmount = -joyInput.x;
      const moveForward = cameraWorldDirection.current.clone().multiplyScalar(forwardAmount);
      const cameraRight = new THREE.Vector3().crossVectors(cameraRef.current.up,
                                                           cameraWorldDirection.current).normalize();
      const moveStrafe = cameraRight.multiplyScalar(strafeAmount);
      moveVector.add(moveForward).add(moveStrafe);
      if (moveVector.lengthSq() > 0.01) {
          moveVector.normalize();
          targetRotation = Math.atan2(moveVector.x, moveVector.z);
      }
  } else { playerWalkAnimationTimeRef.current = 0; }
  \<close>
\<close>

definition playerMoveVector :: "JoystickOutput \<Rightarrow> Vector3 \<Rightarrow> Vector3 \<Rightarrow> real \<Rightarrow> Vector3 \<times> real" where
  "playerMoveVector joyInput cameraWorldDirection cameraUp rotY =
     (if active joyInput
      then
        (let forwardAmount = - jy joyInput;
             strafeAmount = - jx joyInput;
             moveForward = multiplyScalar cameraWorldDirection forwardAmount;
             cameraRight = normalize (crossVectors cameraUp cameraWorldDirection);
             moveStrafe = multiplyScalar cameraRight strafeAmount;
             moveVector = add (add (vec3 0 0 0) moveForward) moveStrafe
         in if lengthSq moveVector > 0.01
            then (let mv = normalize moveVector in (mv, atan2 (vx mv) (vz mv)))
            else (moveVector, rotY))
      else (vec3 0 0 0, rotY))"

text \<open>
  The tentative position of the player in a frame, before the arena test:
  \<open>player.position.add(moveVector.clone().multiplyScalar(moveSpeed * delta))\<close> with
  \<open>moveSpeed = 4.0\<close>.
\<close>

definition playerTentativePosition ::
  "real \<Rightarrow> JoystickOutput \<Rightarrow> Vector3 \<Rightarrow> Vector3 \<Rightarrow> PlayerRefs \<Rightarrow> Vector3"
where
  "playerTentativePosition delta joyInput cameraDir cameraUp refs =
     (let cameraWorldDirection = normalize (cameraDir\<lparr>vy := 0\<rparr>);
          player = playerState refs;
          (moveVector, targetRotation) =
             playerMoveVector joyInput cameraWorldDirection cameraUp (rotationY player)
      in add (position player) (multiplyScalar moveVector (4.0 * delta)))"

text \<open>
  The player logic of a frame. It returns the refs and the camera target it sets.
  \<^verbatim>\<open>
  player.rotationY += shortestAngleDiff(player.rotationY, targetRotation) * rotationSpeed * delta;
  player.meshRef.current.rotation.y = player.rotationY;
  const actualMoveSpeed = moveSpeed * delta;
  const prevPlayerPos = player.position.clone();
  player.position.add(moveVector.clone().multiplyScalar(actualMoveSpeed));
  if (Math.abs(player.position.x) + Math.abs(player.position.z) > mapRadius * 0.98) {
      player.position.copy(prevPlayerPos);
  }
  player.meshRef.current.position.x = player.position.x;
  player.meshRef.current.position.y = CHARACTER_BASE_Y
      + (joyInput.active ? Math.sin(playerWalkAnimationTimeRef.current) * 0.08 : 0);
  player.meshRef.current.position.z = player.position.z;
  ... the attack flash ...
  cameraTargetRef.current.set(player.position.x, CHARACTER_BASE_Y + 0.5, player.position.z);
  \<close>
\<close>

definition playerLogic ::
  "real \<Rightarrow> JoystickOutput \<Rightarrow> Vector3 \<Rightarrow> Vector3 \<Rightarrow> PlayerRefs \<Rightarrow> PlayerRefs \<times> Vector3"
where
  "playerLogic delta joyInput cameraDir cameraUp refs =
     (let cameraWorldDirection = normalize (cameraDir\<lparr>vy := 0\<rparr>);
          rotationSpeed = pi * 2;
          player = playerState refs;
          walk = (if active joyInput then playerWalkAnimationTime refs + delta * 8 else 0);
          (moveVector, targetRotation) =
             playerMoveVector joyInput cameraWorldDirection cameraUp (rotationY player);
          rotY = rotationY player
                 + shortestAngleDiff (rotationY player) targetRotation * rotationSpeed * delta;
          prevPlayerPos = position player;
          moved = playerTentativePosition delta joyInput cameraDir cameraUp refs;
          pos = (if outsideArena moved then prevPlayerPos else moved);
          m = (meshRef player)
                \<lparr>meshRotationY := rotY,
                 meshPosition := vec3 (vx pos)
                                      (CHARACTER_BASE_Y + (if active joyInput then sin walk * 0.08 else 0))
                                      (vz pos)\<rparr>;
          refs1 = refs\<lparr>playerWalkAnimationTime := walk,
                       playerState := player\<lparr>rotationY := rotY, position := pos, meshRef := m\<rparr>\<rparr>;
          refs2 = playerAttackEffect delta refs1
      in (refs2, vec3 (vx pos) (CHARACTER_BASE_Y + 0.5) (vz pos)))"

section \<open>The enemy\<close>

datatype AiState = ROAMING | CHASING_PLAYER | ATTACKING_PLAYER | FLEEING_TOWER

text \<open>\<open>EnemyState\<close> starts with the four fields of \<open>PlayerState\<close>.\<close>

record EnemyState = PlayerState +
  currentTarget :: Vector3
  roamTimer :: real
  isMoving :: bool
  walkAnimationTime :: real
  aiState :: AiState
  attackCooldownTimer :: real
  isAttackingVisual :: bool
  attackEffectTimer :: real

datatype Team = blue | red

record TowerInfo =
  towerPosition :: Vector3
  towerName :: string
  isBase :: bool
  team :: Team

text \<open>\<open>blueTowersRef.current\<close> after setup, from \<open>towerDefinitions.blue\<close>.\<close>

definition blueTowers :: "TowerInfo list" where
  "blueTowers =
     [\<lparr>towerPosition = vec3 0 0 (- mapRadius * 0.85), towerName = ''BlueBaseTower'',
        isBase = True, team = blue\<rparr>,
      \<lparr>towerPosition = vec3 0 0 (- mapRadius * 0.5), towerName = ''BlueMidTower'',
        isBase = False, team = blue\<rparr>,
      \<lparr>towerPosition = vec3 (- mapRadius * 0.45) 0 (- mapRadius * 0.2), towerName = ''BlueLeftTower'',
        isBase = False, team = blue\<rparr>,
      \<lparr>towerPosition = vec3 (mapRadius * 0.45) 0 (- mapRadius * 0.2), towerName = ''BlueRightTower'',
        isBase = False, team = blue\<rparr>]"

text \<open>
  The timers of the enemy, at the start of its logic:
  \<^verbatim>\<open>
  enemy.attackCooldownTimer = Math.max(0, enemy.attackCooldownTimer - delta);
  enemy.roamTimer = Math.max(0, enemy.roamTimer - delta);
  \<close>
\<close>

definition enemyTimers :: "real \<Rightarrow> EnemyState \<Rightarrow> EnemyState" where
  "enemyTimers delta enemy =
     enemy\<lparr>attackCooldownTimer := max 0 (attackCooldownTimer enemy - delta),
           roamTimer := max 0 (roamTimer enemy - delta)\<rparr>"

text \<open>
  The attack visual of the enemy, advanced by a frame (\<open>0xffcc66 = 16764006\<close>,
  \<open>0xffaa33 = 16755251\<close>):
  \<^verbatim>\<open>
  if (enemy.isAttackingVisual) {
      enemy.attackEffectTimer += delta;
      if (enemy.attackEffectTimer >= ENEMY_ATTACK_EFFECT_DURATION) {
          enemy.isAttackingVisual = false;
          enemy.attackEffectTimer = 0;
          enemyMaterial.color.copy(enemy.originalColor);
          enemyMaterial.emissive.setHex(0x000000);
          enemyMaterial.emissiveIntensity = 0;
      } else {
          const lerpFactor = Math.sin(enemy.attackEffectTimer / ENEMY_ATTACK_EFFECT_DURATION * Math.PI) * 0.7;
          enemyMaterial.color.lerpColors(enemy.originalColor, new THREE.Color(0xffcc66), lerpFactor);
          enemyMaterial.emissive.setHex(0xffaa33);
          enemyMaterial.emissiveIntensity = lerpFactor * 1.5;
      }
  }
  \<close>
\<close>

definition enemyAttackVisual :: "real \<Rightarrow> EnemyState \<Rightarrow> EnemyState" where
  "enemyAttackVisual delta enemy =
     (if isAttackingVisual enemy
      then
        (let t = attackEffectTimer enemy + delta
         in if t \<ge> ENEMY_ATTACK_EFFECT_DURATION
            then
              (let m = (material (meshRef enemy))
                         \<lparr>color := originalColor enemy,
                          emissive := setHex 0,
                          emissiveIntensity := 0\<rparr>
               in enemy\<lparr>isAttackingVisual := False,
                        attackEffectTimer := 0,
                        meshRef := (meshRef enemy)\<lparr>material := m\<rparr>\<rparr>)
            else
              (let lerpFactor = sin (t / ENEMY_ATTACK_EFFECT_DURATION * pi) * 0.7;
                   m = (material (meshRef enemy))
                         \<lparr>color := lerpColors (originalColor enemy) (setHex 16764006) lerpFactor,
                          emissive := setHex 16755251,
                          emissiveIntensity := lerpFactor * 1.5\<rparr>
               in enemy\<lparr>attackEffectTimer := t,
                        meshRef := (meshRef enemy)\<lparr>material := m\<rparr>\<rparr>))
      else enemy)"

text \<open>
  The nearest hostile tower. The accumulator is \<open>None\<close> while
  \<open>closestHostileTowerDistSq\<close> is \<open>Infinity\<close> and \<open>threateningTowerPos\<close> is \<open>null\<close> (every
  distance is below \<open>Infinity\<close>).
  \<^verbatim>\<open>
  for (const tower of blueTowersRef.current) {
      const distSq = enemyPos.distanceToSquared(tower.position);
      if (distSq < closestHostileTowerDistSq) {
          closestHostileTowerDistSq = distSq;
          threateningTowerPos = tower.position;
      }
  }
  \<close>
\<close>

fun closestHostileTower ::
  "Vector3 \<Rightarrow> TowerInfo list \<Rightarrow> (real \<times> Vector3) option \<Rightarrow> (real \<times> Vector3) option"
where
  "closestHostileTower enemyPos [] acc = acc"
| "closestHostileTower enemyPos (tower # rest) acc =
     (let distSq = distanceToSquared enemyPos (towerPosition tower)
      in case acc of
           None \<Rightarrow> closestHostileTower enemyPos rest (Some (distSq, towerPosition tower))
         | Some (closest, pos) \<Rightarrow>
             if distSq < closest
             then closestHostileTower enemyPos rest (Some (distSq, towerPosition tower))
             else closestHostileTower enemyPos rest acc)"

text \<open>
  \<open>towerThreat\<close> is the condition
  \<open>threateningTowerPos && closestHostileTowerDistSq < TOWER_AVOIDANCE_RANGE_ENEMY_SQR\<close>,
  with the position of the tower when it holds.
\<close>

definition towerThreat :: "Vector3 \<Rightarrow> TowerInfo list \<Rightarrow> Vector3 option" where
  "towerThreat enemyPos towers =
     (case closestHostileTower enemyPos towers None of
        None \<Rightarrow> None
      | Some (closest, pos) \<Rightarrow>
          if closest < TOWER_AVOIDANCE_RANGE_ENEMY_SQR then Some pos else None)"

text \<open>
  The locals of the priority evaluation: \<open>newAiState\<close>, \<open>newTarget\<close> and
  \<open>forceNewRoamTarget\<close>.
\<close>

record Decision =
  newAiState :: AiState
  newTarget :: Vector3
  forceNewRoamTarget :: bool

text \<open>
  The priority evaluation (lines 701 to 755 of the scene): the tower threat first, then
  attack, chase and roam. It writes the enemy's attack fields and emits smoke when the
  attack starts.
\<close>

definition enemyEvaluate ::
  "Vector3 \<Rightarrow> TowerInfo list \<Rightarrow> (nat \<Rightarrow> real) \<Rightarrow> EnemyState \<times> SmokeState \<times> nat
     \<Rightarrow> Decision \<times> EnemyState \<times> SmokeState \<times> nat"
where
  "enemyEvaluate playerPos towers rnd s =
     (case s of (enemy, smoke, i) \<Rightarrow>
        (let enemyPos = position enemy;
             distanceToPlayerSq = distanceToSquared enemyPos playerPos;
             d0 = \<lparr>newAiState = aiState enemy, newTarget = currentTarget enemy,
                   forceNewRoamTarget = False\<rparr>
         in case towerThreat enemyPos towers of
              Some threateningTowerPos \<Rightarrow>
                (let directionAwayFromTower = normalize (sub enemyPos threateningTowerPos)
                 in (d0\<lparr>newAiState := FLEEING_TOWER,
                        newTarget := addScaledVector enemyPos directionAwayFromTower
                                       FLEE_DISTANCE_FROM_TOWER\<rparr>,
                     enemy, smoke, i))
            | None \<Rightarrow>
                (let d1 = (if aiState enemy = FLEEING_TOWER
                           then d0\<lparr>newAiState := ROAMING, forceNewRoamTarget := True\<rparr>
                           else d0)
                 in if newAiState d1 \<noteq> FLEEING_TOWER
                       \<and> distanceToPlayerSq < ENEMY_ATTACK_RANGE_SQR
                       \<and> attackCooldownTimer enemy \<le> 0
                       \<and> \<not> isAttackingVisual enemy
                    then
                      (let (smoke', i') = emitSmokePuffs enemyPos 0.8 rnd i smoke
                       in (d1\<lparr>newAiState := ATTACKING_PLAYER, newTarget := playerPos\<rparr>,
                           enemy\<lparr>isAttackingVisual := True,
                                 attackEffectTimer := 0,
                                 attackCooldownTimer := ENEMY_ATTACK_COOLDOWN\<rparr>,
                           smoke', i'))
                    else if newAiState d1 \<noteq> FLEEING_TOWER \<and> newAiState d1 \<noteq> ATTACKING_PLAYER
                            \<and> distanceToPlayerSq < ENEMY_DETECTION_RANGE_SQR
                    then (d1\<lparr>newAiState := CHASING_PLAYER, newTarget := playerPos\<rparr>, enemy, smoke, i)
                    else if newAiState d1 \<noteq> FLEEING_TOWER \<and> newAiState d1 \<noteq> ATTACKING_PLAYER
                    then
                      (if newAiState d1 = CHASING_PLAYER
                          \<and> distanceToPlayerSq \<ge> ENEMY_DETECTION_RANGE_SQR
                       then (d1\<lparr>newAiState := ROAMING, forceNewRoamTarget := True\<rparr>, enemy, smoke, i)
                       else if newAiState d1 = ROAMING
                               \<and> (roamTimer enemy \<le> 0
                                    \<or> distanceToSquared enemyPos (currentTarget enemy)
                                        < ENEMY_TARGET_REACH_THRESHOLD ^ 2)
                       then (d1\<lparr>forceNewRoamTarget := True\<rparr>, enemy, smoke, i)
                       else (d1, enemy, smoke, i))
                    else (d1, enemy, smoke, i))))"

text \<open>
  After the evaluation (lines 757 to 770):
  \<^verbatim>\<open>
  if (newAiState === 'ATTACKING_PLAYER' && enemy.isAttackingVisual
      && enemy.attackEffectTimer < ENEMY_ATTACK_EFFECT_DURATION) {
     enemy.isMoving = false;
  } else if (newAiState === 'ATTACKING_PLAYER' && !enemy.isAttackingVisual) {
      if (distanceToPlayerSq < ENEMY_DETECTION_RANGE_SQR) {
          newAiState = 'CHASING_PLAYER'; newTarget = playerPos.clone();
      } else { newAiState = 'ROAMING'; forceNewRoamTarget = true; }
  }
  \<close>
\<close>

definition enemyAttackHold :: "Vector3 \<Rightarrow> Decision \<times> EnemyState \<Rightarrow> Decision \<times> EnemyState" where
  "enemyAttackHold playerPos s =
     (case s of (d, enemy) \<Rightarrow>
        (let distanceToPlayerSq = distanceToSquared (position enemy) playerPos
         in if newAiState d = ATTACKING_PLAYER \<and> isAttackingVisual enemy
               \<and> attackEffectTimer enemy < ENEMY_ATTACK_EFFECT_DURATION
            then (d, enemy\<lparr>isMoving := False\<rparr>)
            else if newAiState d = ATTACKING_PLAYER \<and> \<not> isAttackingVisual enemy
            then (if distanceToPlayerSq < ENEMY_DETECTION_RANGE_SQR
                  then (d\<lparr>newAiState := CHASING_PLAYER, newTarget := playerPos\<rparr>, enemy)
                  else (d\<lparr>newAiState := ROAMING, forceNewRoamTarget := True\<rparr>, enemy))
            else (d, enemy)))"

text \<open>
  The state and the target are stored (lines 773 to 779):
  \<^verbatim>\<open>
  enemy.aiState = newAiState;
  if (forceNewRoamTarget) {
       enemy.currentTarget = getRandomRoamTarget(mapRadius, enemyPos, blueFountainPosition, redFountainPosition);
       enemy.roamTimer = ENEMY_ROAM_TARGET_UPDATE_MIN_INTERVAL + Math.random()
           * (ENEMY_ROAM_TARGET_UPDATE_MAX_INTERVAL - ENEMY_ROAM_TARGET_UPDATE_MIN_INTERVAL);
  } else { enemy.currentTarget = newTarget; }
  \<close>
\<close>

definition enemyRetarget :: "(nat \<Rightarrow> real) \<Rightarrow> Decision \<Rightarrow> EnemyState \<times> nat \<Rightarrow> EnemyState \<times> nat" where
  "enemyRetarget rnd d s =
     (case s of (enemy, i) \<Rightarrow>
        if forceNewRoamTarget d
        then
          (let (target, j) = getRandomRoamTarget mapRadius (position enemy)
                               blueFountainPosition redFountainPosition rnd i
           in (enemy\<lparr>aiState := newAiState d,
                     currentTarget := target,
                     roamTimer := ENEMY_ROAM_TARGET_UPDATE_MIN_INTERVAL
                                  + rnd j * (ENEMY_ROAM_TARGET_UPDATE_MAX_INTERVAL
                                             - ENEMY_ROAM_TARGET_UPDATE_MIN_INTERVAL)\<rparr>,
               j + 1))
        else (enemy\<lparr>aiState := newAiState d, currentTarget := newTarget d\<rparr>, i))"

text \<open>
  Everything the enemy logic does in a frame before it moves: the timers, the attack
  visual, the evaluation and the storing of state and target. Its result is the enemy
  at movement time.
\<close>

definition enemyDecide ::
  "real \<Rightarrow> Vector3 \<Rightarrow> TowerInfo list \<Rightarrow> (nat \<Rightarrow> real) \<Rightarrow> EnemyState \<times> SmokeState \<times> nat
     \<Rightarrow> EnemyState \<times> SmokeState \<times> nat"
where
  "enemyDecide delta playerPos towers rnd s =
     (case s of (enemy, smoke, i) \<Rightarrow>
        (let e1 = enemyAttackVisual delta (enemyTimers delta enemy);
             (d, e2, smoke', i') = enemyEvaluate playerPos towers rnd (e1, smoke, i);
             (d', e3) = enemyAttackHold playerPos (d, e2);
             (e4, i'') = enemyRetarget rnd d' (e3, i')
         in (e4, smoke', i'')))"

text \<open>
  The tentative position of the enemy when it steps towards its target:
  \<open>enemy.position.addScaledVector(directionToTarget, ENEMY_MOVE_SPEED * delta)\<close> with the
  normalized direction.
\<close>

definition enemyTentativePosition :: "real \<Rightarrow> EnemyState \<Rightarrow> Vector3" where
  "enemyTentativePosition delta enemy =
     addScaledVector (position enemy)
       (normalize (sub (currentTarget enemy) (position enemy)))
       (ENEMY_MOVE_SPEED * delta)"

text \<open>
  Movement and animation (lines 781 to 817):
  \<^verbatim>\<open>
  if (enemy.aiState !== 'ATTACKING_PLAYER' || !enemy.isAttackingVisual) {
      const directionToTarget = new THREE.Vector3().subVectors(enemy.currentTarget, enemyPos);
      if (directionToTarget.lengthSq() > 0.01) {
          directionToTarget.normalize();
          const targetRotation = Math.atan2(directionToTarget.x, directionToTarget.z);
          enemy.rotationY += shortestAngleDiff(enemy.rotationY, targetRotation) * ENEMY_ROTATION_SPEED * delta;
          enemy.meshRef.current.rotation.y = enemy.rotationY;
          const actualMoveSpeed = ENEMY_MOVE_SPEED * delta;
          const prevEnemyPos = enemy.position.clone();
          enemy.position.addScaledVector(directionToTarget, actualMoveSpeed);
          if (Math.abs(enemy.position.x) + Math.abs(enemy.position.z) > mapRadius * 0.98) {
              enemy.position.copy(prevEnemyPos);
              if (enemy.aiState !== 'FLEEING_TOWER') { enemy.roamTimer = 0; }
          }
          enemy.isMoving = true;
          enemy.walkAnimationTime += delta * 7;
          enemy.meshRef.current.position.y = CHARACTER_BASE_Y + Math.sin(enemy.walkAnimationTime) * 0.07;
      } else {
          enemy.isMoving = false;
          enemy.walkAnimationTime = 0;
          enemy.meshRef.current.position.y = CHARACTER_BASE_Y;
          if (enemy.aiState === 'ROAMING' || enemy.aiState === 'FLEEING_TOWER') { enemy.roamTimer = 0; }
      }
  } else {
      enemy.isMoving = false;
      enemy.walkAnimationTime = 0;
      enemy.meshRef.current.position.y = CHARACTER_BASE_Y;
  }
  enemy.meshRef.current.position.x = enemy.position.x;
  enemy.meshRef.current.position.z = enemy.position.z;
  \<close>
\<close>

definition enemyMovement :: "real \<Rightarrow> EnemyState \<Rightarrow> EnemyState" where
  "enemyMovement delta enemy =
     (let e' =
        (if aiState enemy \<noteq> ATTACKING_PLAYER \<or> \<not> isAttackingVisual enemy
         then
           (let directionToTarget = sub (currentTarget enemy) (position enemy)
            in if lengthSq directionToTarget > 0.01
               then
                 (let dir = normalize directionToTarget;
                      targetRotation = atan2 (vx dir) (vz dir);
                      rotY = rotationY enemy
                             + shortestAngleDiff (rotationY enemy) targetRotation
                               * ENEMY_ROTATION_SPEED * delta;
                      prevEnemyPos = position enemy;
                      moved = enemyTentativePosition delta enemy;
                      out = outsideArena moved;
                      walk = walkAnimationTime enemy + delta * 7
                  in enemy\<lparr>rotationY := rotY,
                           meshRef := (meshRef enemy)
                              \<lparr>meshRotationY := rotY,
                               meshPosition := (meshPosition (meshRef enemy))
                                  \<lparr>vy := CHARACTER_BASE_Y + sin walk * 0.07\<rparr>\<rparr>,
                           position := (if out then prevEnemyPos else moved),
                           roamTimer := (if out \<and> aiState enemy \<noteq> FLEEING_TOWER then 0
                                         else roamTimer enemy),
                           isMoving := True,
                           walkAnimationTime := walk\<rparr>)
               else
                 enemy\<lparr>isMoving := False,
                       walkAnimationTime := 0,
                       meshRef := (meshRef enemy)
                          \<lparr>meshPosition := (meshPosition (meshRef enemy))\<lparr>vy := CHARACTER_BASE_Y\<rparr>\<rparr>,
                       roamTimer := (if aiState enemy = ROAMING \<or> aiState enemy = FLEEING_TOWER
                                     then 0 else roamTimer enemy)\<rparr>)
         else
           enemy\<lparr>isMoving := False,
                 walkAnimationTime := 0,
                 meshRef := (meshRef enemy)
                    \<lparr>meshPosition := (meshPosition (meshRef enemy))\<lparr>vy := CHARACTER_BASE_Y\<rparr>\<rparr>\<rparr>)
      in e'\<lparr>meshRef := (meshRef e')
              \<lparr>meshPosition := (meshPosition (meshRef e'))
                 \<lparr>vx := vx (position e'), vz := vz (position e')\<rparr>\<rparr>\<rparr>)"

text \<open>The enemy logic of a frame.\<close>

definition enemyLogic ::
  "real \<Rightarrow> Vector3 \<Rightarrow> TowerInfo list \<Rightarrow> (nat \<Rightarrow> real) \<Rightarrow> EnemyState \<times> SmokeState \<times> nat
     \<Rightarrow> EnemyState \<times> SmokeState \<times> nat"
where
  "enemyLogic delta playerPos towers rnd s =
     (case enemyDecide delta playerPos towers rnd s of
        (enemy, smoke, i) \<Rightarrow> (enemyMovement delta enemy, smoke, i))"

text \<open>
  An invariant of the enemy over frames: while the attack visual plays, the state is
  \<open>ATTACKING_PLAYER\<close> and no hostile tower is within the avoidance range of the enemy.
\<close>

definition attackInv :: "TowerInfo list \<Rightarrow> EnemyState \<Rightarrow> bool" where
  "attackInv towers enemy =
     (\<not> isAttackingVisual enemy
      \<or> (aiState enemy = ATTACKING_PLAYER \<and> towerThreat (position enemy) towers = None))"

section \<open>The actors as the setup creates them\<close>

text \<open>
  \<open>createCharacterMesh\<close> makes a \<open>MeshStandardMaterial\<close> from the colour alone, so the
  emissive colour and the emissive intensity are the defaults of three.js for a new
  material: black and 1. The team colours are \<open>0x2563eb = 2450411\<close> and
  \<open>0xdc2626 = 14427686\<close>.
\<close>

definition blueTeamColor :: Color where
  "blueTeamColor = setHex 2450411"

definition redTeamColor :: Color where
  "redTeamColor = setHex 14427686"

definition createCharacterMesh :: "Color \<Rightarrow> CharacterMesh" where
  "createCharacterMesh c =
     \<lparr>meshPosition = vec3 0 CHARACTER_BASE_Y 0,
      meshRotationY = 0,
      material = \<lparr>color = c, emissive = setHex 0, emissiveIntensity = 1\<rparr>\<rparr>"

definition initialPlayerRefs :: PlayerRefs where
  "initialPlayerRefs =
     \<lparr>playerState =
        \<lparr>meshRef = (createCharacterMesh blueTeamColor)
                      \<lparr>meshPosition := (blueFountainPosition\<lparr>vy := CHARACTER_BASE_Y\<rparr>)\<rparr>,
         position = blueFountainPosition,
         rotationY = 0,
         originalColor = blueTeamColor\<rparr>,
      playerWalkAnimationTime = 0,
      lastAttackTrigger = 0,
      playerAttackEffectActive = False,
      playerAttackEffectTimer = 0\<rparr>"

definition initialEnemyState :: "(nat \<Rightarrow> real) \<Rightarrow> nat \<Rightarrow> EnemyState \<times> nat" where
  "initialEnemyState rnd i =
     (let (initialEnemyTarget, j) =
            getRandomRoamTarget mapRadius redFountainPosition
              blueFountainPosition redFountainPosition rnd i
      in (\<lparr>meshRef = (createCharacterMesh redTeamColor)
                        \<lparr>meshPosition := (redFountainPosition\<lparr>vy := CHARACTER_BASE_Y\<rparr>),
                         meshRotationY := pi\<rparr>,
           position = redFountainPosition,
           rotationY = pi,
           originalColor = redTeamColor,
           currentTarget = initialEnemyTarget,
           roamTimer = ENEMY_ROAM_TARGET_UPDATE_MIN_INTERVAL
                       + rnd j * (ENEMY_ROAM_TARGET_UPDATE_MAX_INTERVAL
                                  - ENEMY_ROAM_TARGET_UPDATE_MIN_INTERVAL),
           isMoving = False,
           walkAnimationTime = 0,
           aiState = ROAMING,
           attackCooldownTimer = 0,
           isAttackingVisual = False,
           attackEffectTimer = 0\<rparr>, j + 1))"

section \<open>The enemy over a session\<close>

text \<open>
  The enemy states a session can reach with a given list of hostile towers: the state
  the setup creates, and the state after a frame of the enemy logic from a reachable
  state, whatever the elapsed time, the player's position, the smoke pool and the random
  numbers of that frame.
\<close>

inductive enemyReach :: "TowerInfo list \<Rightarrow> EnemyState \<Rightarrow> bool" for towers where
  reach_created: "enemyReach towers (fst (initialEnemyState rnd i))"
| reach_logic: "enemyReach towers enemy \<Longrightarrow>
     enemyReach towers (fst (enemyLogic delta playerPos towers rnd (enemy, smoke, i)))"

section \<open>The camera over a session\<close>

text \<open>
  The camera rigs a session can reach: from the rig the setup leaves, by pointer-down,
  pointer-move, pointer-up or pointer-cancel events, and by frames, whose player logic
  sets the camera target.
\<close>

inductive cameraReach :: "CameraRig \<Rightarrow> bool" where
  reach_initial: "cameraReach initialCameraRig"
| reach_down: "cameraReach rig \<Longrightarrow>
     cameraReach (handleCanvasPointerDown pointerType button captureOk event rig)"
| reach_move: "cameraReach rig \<Longrightarrow> cameraReach (onWindowPointerMoveCallback event rig)"
| reach_up: "cameraReach rig \<Longrightarrow> cameraReach (onWindowPointerUpOrCancelCallback event rig)"
| reach_frame: "cameraReach rig \<Longrightarrow>
     cameraReach (rig\<lparr>cameraTarget := snd (playerLogic delta joyInput cameraDir cameraUp refs)\<rparr>)"

text \<open>
  An invariant of the reachable rigs: the radius is 18, the target is at the height the
  setup or a frame gives it, and the polar angle is in its clamp range.
\<close>

definition cameraInv :: "CameraRig \<Rightarrow> bool" where
  "cameraInv rig =
     (cameraRadius rig = 18
      \<and> (vy (cameraTarget rig) = CHARACTER_BASE_Y \<or> vy (cameraTarget rig) = CHARACTER_BASE_Y + 0.5)
      \<and> MIN_PHI_ABS \<le> cameraPhi rig
      \<and> cameraPhi rig \<le> maxPhiForGround (cameraRadius rig) (vy (cameraTarget rig)))"

section \<open>Properties of the angle arithmetic\<close>

lemma js_rem_nonneg:
  assumes "0 < b" "0 \<le> a"
  shows "0 \<le> js_rem a b \<and> js_rem a b < b"
proof -
  have q: "0 \<le> a / b" using assms by simp
  have "of_int \<lfloor>a / b\<rfloor> * b \<le> a"
    using assms(1) by (rule floor_divide_lower)
  moreover have "a < (of_int \<lfloor>a / b\<rfloor> + 1) * b"
    using assms(1) by (rule floor_divide_upper)
  ultimately show ?thesis
    using q by (simp add: js_rem_def js_trunc_def algebra_simps)
qed

lemma js_rem_neg:
  assumes "0 < b" "a < 0"
  shows "- b < js_rem a b \<and> js_rem a b \<le> 0"
proof -
  have q: "\<not> 0 \<le> a / b" using assms by (simp add: divide_less_0_iff not_le)
  have "a \<le> of_int \<lceil>a / b\<rceil> * b"
    using assms(1) by (rule ceiling_divide_upper)
  moreover have "(of_int \<lceil>a / b\<rceil> - 1) * b < a"
    using assms(1) by (rule ceiling_divide_lower)
  ultimately show ?thesis
    using q by (simp add: js_rem_def js_trunc_def algebra_simps)
qed

lemma js_rem_congruent: "\<exists>k::int. js_rem a b = a + of_int k * b"
proof
  show "js_rem a b = a + of_int (- js_trunc (a / b)) * b"
    by (simp add: js_rem_def)
qed

text \<open>
  C10. For all angles \<open>current\<close> and \<open>target\<close>, \<open>shortestAngleDiff current target\<close>
  is a value \<open>d\<close> with \<open>-\<pi> \<le> d \<le> \<pi>\<close> that differs from \<open>target - current\<close> by a whole
  number of turns of \<open>2\<pi>\<close>: adding \<open>d\<close> to \<open>current\<close> reaches an angle equivalent to
  \<open>target\<close>, along an arc no longer than half a turn.
\<close>

theorem shortestAngleDiff_range_congruent:
  "- pi \<le> shortestAngleDiff current target
   \<and> shortestAngleDiff current target \<le> pi
   \<and> (\<exists>k::int. current + shortestAngleDiff current target = target + of_int k * (2 * pi))"
proof -
  define a where "a = target - current"
  define d where "d = js_rem a (pi * 2)"
  have b: "(0::real) < pi * 2" by simp
  obtain k :: int where k: "d = a + of_int k * (pi * 2)"
    unfolding d_def using js_rem_congruent by blast
  have bounds: "- (pi * 2) < d \<and> d < pi * 2"
  proof (cases "0 \<le> a")
    case True
    from js_rem_nonneg [OF b True] show ?thesis unfolding d_def using b by linarith
  next
    case False
    then have "a < 0" by simp
    from js_rem_neg [OF b this] show ?thesis unfolding d_def using b by linarith
  qed
  have sad: "shortestAngleDiff current target =
      (if d > pi then d - pi * 2 else if d < - pi then d + pi * 2 else d)"
    by (simp add: shortestAngleDiff_def Let_def d_def a_def)
  consider (hi) "d > pi" | (lo) "\<not> d > pi" "d < - pi" | (mid) "\<not> d > pi" "\<not> d < - pi"
    by blast
  then show ?thesis
  proof cases
    case hi
    have "current + (d - pi * 2) = target + of_int (k - 1) * (2 * pi)"
      using k by (simp add: a_def algebra_simps)
    then have "\<exists>j::int. current + (d - pi * 2) = target + of_int j * (2 * pi)" by blast
    then show ?thesis using hi bounds by (simp add: sad)
  next
    case lo
    have "current + (d + pi * 2) = target + of_int (k + 1) * (2 * pi)"
      using k by (simp add: a_def algebra_simps)
    then have "\<exists>j::int. current + (d + pi * 2) = target + of_int j * (2 * pi)" by blast
    then show ?thesis using lo bounds by (simp add: sad)
  next
    case mid
    have "current + d = target + of_int k * (2 * pi)"
      using k by (simp add: a_def algebra_simps)
    then have "\<exists>j::int. current + d = target + of_int j * (2 * pi)" by blast
    then show ?thesis using mid by (simp add: sad)
  qed
qed

section \<open>Properties of the input merge\<close>

lemma updateKeyboardMovementState_unit_length:
  "active (updateKeyboardMovementState ks) \<Longrightarrow>
     (jx (updateKeyboardMovementState ks))\<^sup>2 + (jy (updateKeyboardMovementState ks))\<^sup>2 = 1"
  by (auto simp: updateKeyboardMovementState_def Let_def power_divide)

text \<open>
  C1, as the code has it. In the merge of the two directional sources the keyboard comes
  first: whenever the keyboard signal is active the merged input is the keyboard signal,
  also when the joystick is active too; if only the joystick is active the merged input
  is the joystick signal; if neither is active it is the inactive input
  \<open>{x: 0, y: 0, active: false}\<close>.
\<close>

theorem effectiveJoystickData_keyboard_first:
  "(active keyboardMovement \<longrightarrow>
      effectiveJoystickData keyboardMovement joystickData = keyboardMovement)
   \<and> (\<not> active keyboardMovement \<and> active joystickData \<longrightarrow>
      effectiveJoystickData keyboardMovement joystickData = joystickData)
   \<and> (\<not> active keyboardMovement \<and> \<not> active joystickData \<longrightarrow>
      effectiveJoystickData keyboardMovement joystickData = \<lparr>jx = 0, jy = 0, active = False\<rparr>)"
  by (simp add: effectiveJoystickData_def initialJoystickData_def)

text \<open>
  The three cases at concrete inputs: both active, only the joystick active, neither
  active.
\<close>

theorem effectiveJoystickData_keyboard_first_witness:
  "active \<lparr>jx = 1, jy = 0, active = True\<rparr>
   \<and> effectiveJoystickData \<lparr>jx = 1, jy = 0, active = True\<rparr> \<lparr>jx = 0, jy = 1, active = True\<rparr>
       = \<lparr>jx = 1, jy = 0, active = True\<rparr>
   \<and> active \<lparr>jx = 0, jy = 1, active = True\<rparr>
   \<and> effectiveJoystickData \<lparr>jx = 0, jy = 0, active = False\<rparr> \<lparr>jx = 0, jy = 1, active = True\<rparr>
       = \<lparr>jx = 0, jy = 1, active = True\<rparr>
   \<and> effectiveJoystickData \<lparr>jx = 0, jy = 0, active = False\<rparr> \<lparr>jx = 0, jy = 0, active = False\<rparr>
       = \<lparr>jx = 0, jy = 0, active = False\<rparr>"
  using effectiveJoystickData_keyboard_first
          [of "\<lparr>jx = 1, jy = 0, active = True\<rparr>" "\<lparr>jx = 0, jy = 1, active = True\<rparr>"]
        effectiveJoystickData_keyboard_first
          [of "\<lparr>jx = 0, jy = 0, active = False\<rparr>" "\<lparr>jx = 0, jy = 1, active = True\<rparr>"]
        effectiveJoystickData_keyboard_first
          [of "\<lparr>jx = 0, jy = 0, active = False\<rparr>" "\<lparr>jx = 0, jy = 0, active = False\<rparr>"]
  by simp

text \<open>
  C1 as stated fails: with the keyboard holding \<open>d\<close> (signal \<open>(1, 0)\<close>) and the joystick
  active at \<open>(0, 1)\<close>, the merged input is not the joystick signal.
\<close>

theorem joystick_does_not_win_counterexample:
  "active \<lparr>jx = 0, jy = 1, active = True\<rparr>
   \<and> effectiveJoystickData \<lparr>jx = 1, jy = 0, active = True\<rparr> \<lparr>jx = 0, jy = 1, active = True\<rparr>
       \<noteq> \<lparr>jx = 0, jy = 1, active = True\<rparr>"
  by (simp add: effectiveJoystickData_def)

section \<open>Properties of the smoke-puff pool\<close>

lemma emitLoop_inv:
  "distinct (map mesh (activeSmokePuffs st)) \<Longrightarrow> distinct rest \<Longrightarrow>
   set (map mesh (activeSmokePuffs st)) \<subseteq> P \<Longrightarrow> set rest \<subseteq> P \<Longrightarrow>
   distinct (map mesh (activeSmokePuffs (fst (emitLoop rest n k pos rnd i st))))
   \<and> set (map mesh (activeSmokePuffs (fst (emitLoop rest n k pos rnd i st)))) \<subseteq> P
   \<and> smokePuffsPool (fst (emitLoop rest n k pos rnd i st)) = smokePuffsPool st
   \<and> smokeTexture (fst (emitLoop rest n k pos rnd i st)) = smokeTexture st"
proof (induction rest arbitrary: n i st)
  case Nil
  then show ?case by simp
next
  case (Cons m rest)
  show ?case
  proof (cases "int n \<ge> k")
    case True
    then show ?thesis using Cons.prems by simp
  next
    case stop: False
    show ?thesis
    proof (cases "list_ex (\<lambda>p. mesh p = m) (activeSmokePuffs st)")
      case True
      then show ?thesis using stop Cons.IH [of st n i] Cons.prems by simp
    next
      case False
      then have fresh: "m \<notin> set (map mesh (activeSmokePuffs st))"
        by (auto simp: list_ex_iff)
      obtain st' where step:
        "emitLoop (m # rest) n k pos rnd i st = emitLoop rest (n + 1) k pos rnd (i + 6) st'"
        and act: "map mesh (activeSmokePuffs st') = map mesh (activeSmokePuffs st) @ [m]"
        and pool: "smokePuffsPool st' = smokePuffsPool st"
        and tex: "smokeTexture st' = smokeTexture st"
        using stop False by (simp add: Let_def)
      have "distinct (map mesh (activeSmokePuffs st'))"
        using act fresh Cons.prems(1) by simp
      moreover have "distinct rest" using Cons.prems(2) by simp
      moreover have "set (map mesh (activeSmokePuffs st')) \<subseteq> P"
        using act Cons.prems(3,4) by simp
      moreover have "set rest \<subseteq> P" using Cons.prems(4) by simp
      ultimately show ?thesis
        using Cons.IH [of st' "n + 1" "i + 6"] step pool tex by simp
    qed
  qed
qed

lemma updatePuffs_meshes:
  "map mesh (fst (updatePuffs xs delta ms)) = map mesh (filter (\<lambda>p. \<not> lifetime p - delta \<le> 0) xs)"
  by (induction xs arbitrary: ms) (simp_all add: Let_def case_prod_beta)

lemma distinct_subset_length:
  "distinct xs \<Longrightarrow> set xs \<subseteq> set ys \<Longrightarrow> length xs \<le> length ys"
  by (metis card_mono distinct_card List.finite_set card_length le_trans)

lemma poolInv_initial: "poolInv initialSmokeState"
  by (simp add: poolInv_def initialSmokeState_def)

lemma poolInv_emitSmokePuffs:
  assumes "poolInv st"
  shows "poolInv (fst (emitSmokePuffs pos countMultiplier rnd i st))"
proof (cases "smokeTexture st")
  case False
  then show ?thesis using assms by (simp add: emitSmokePuffs_def)
next
  case True
  from assms have
    "distinct (map mesh (activeSmokePuffs st))" "distinct (smokePuffsPool st)"
    "set (map mesh (activeSmokePuffs st)) \<subseteq> set (smokePuffsPool st)"
    "set (smokePuffsPool st) \<subseteq> set (smokePuffsPool st)"
    by (simp_all add: poolInv_def)
  from emitLoop_inv [OF this] assms True show ?thesis
    by (simp add: emitSmokePuffs_def poolInv_def Let_def)
qed

lemma poolInv_smokePuffsUpdate:
  assumes "poolInv st"
  shows "poolInv (smokePuffsUpdate delta st)"
proof -
  have act: "map mesh (activeSmokePuffs (smokePuffsUpdate delta st))
      = map mesh (filter (\<lambda>p. \<not> lifetime p - delta \<le> 0) (activeSmokePuffs st))"
    using updatePuffs_meshes [of "activeSmokePuffs st" delta "puffMeshes st"]
    by (simp add: smokePuffsUpdate_def case_prod_beta)
  have pool: "smokePuffsPool (smokePuffsUpdate delta st) = smokePuffsPool st"
    by (simp add: smokePuffsUpdate_def case_prod_beta)
  show ?thesis
    using assms unfolding poolInv_def act pool
    by (auto simp: distinct_map_filter)
qed

lemma poolInv_smokeStep: "poolInv (fst s) \<Longrightarrow> poolInv (fst (smokeStep rnd s ev))"
  by (cases s; cases ev) (simp_all add: poolInv_emitSmokePuffs poolInv_smokePuffsUpdate)

lemma poolInv_smokeRun: "poolInv (fst s) \<Longrightarrow> poolInv (fst (smokeRun rnd evs s))"
  unfolding smokeRun_def
  by (induction evs arbitrary: s) (simp_all add: poolInv_smokeStep)

lemma poolInv_capacity: "poolInv st \<Longrightarrow> length (activeSmokePuffs st) \<le> NUM_SMOKE_PUFFS"
  using distinct_subset_length [of "map mesh (activeSmokePuffs st)" "smokePuffsPool st"]
  by (simp add: poolInv_def)

lemma emitLoop_all_active:
  "set rest \<subseteq> set (map mesh (activeSmokePuffs st)) \<Longrightarrow> emitLoop rest n k pos rnd i st = (st, i)"
  by (induction rest) (auto simp: list_ex_iff)

lemma poolInv_full:
  assumes "poolInv st" "length (activeSmokePuffs st) = NUM_SMOKE_PUFFS"
  shows "set (smokePuffsPool st) \<subseteq> set (map mesh (activeSmokePuffs st))"
proof -
  have "card (set (map mesh (activeSmokePuffs st))) = NUM_SMOKE_PUFFS"
    using assms distinct_card [of "map mesh (activeSmokePuffs st)"] by (simp add: poolInv_def)
  moreover have "card (set (smokePuffsPool st)) = NUM_SMOKE_PUFFS"
    using assms distinct_card [of "smokePuffsPool st"] by (simp add: poolInv_def)
  ultimately have "set (map mesh (activeSmokePuffs st)) = set (smokePuffsPool st)"
    using assms(1) card_subset_eq [of "set (smokePuffsPool st)" "set (map mesh (activeSmokePuffs st))"]
    by (simp add: poolInv_def)
  then show ?thesis by simp
qed

lemma emitSmokePuffs_full:
  assumes "poolInv st" "length (activeSmokePuffs st) = NUM_SMOKE_PUFFS"
  shows "fst (emitSmokePuffs pos countMultiplier rnd i st) = st"
  using emitLoop_all_active [OF poolInv_full [OF assms]]
  by (simp add: emitSmokePuffs_def Let_def)

text \<open>
  C6. From the pool as set up, after any sequence of \<open>emitSmokePuffs\<close> calls and frame
  updates, at most 15 puffs are active; and an \<open>emitSmokePuffs\<close> call that arrives while
  15 puffs are active returns the state as it was: no puff is activated, the pool does
  not grow, nothing is queued, and the call returns normally.
\<close>

theorem smoke_pool_never_exceeds_capacity:
  "length (activeSmokePuffs (fst (smokeRun rnd evs (initialSmokeState, i)))) \<le> 15
   \<and> (length (activeSmokePuffs (fst (smokeRun rnd evs (initialSmokeState, i)))) = 15 \<longrightarrow>
        fst (emitSmokePuffs pos countMultiplier rnd' j
               (fst (smokeRun rnd evs (initialSmokeState, i))))
          = fst (smokeRun rnd evs (initialSmokeState, i)))"
proof -
  have inv: "poolInv (fst (smokeRun rnd evs (initialSmokeState, i)))"
    by (rule poolInv_smokeRun) (simp add: poolInv_initial)
  show ?thesis
    using poolInv_capacity [OF inv] emitSmokePuffs_full [OF inv]
    by (simp add: NUM_SMOKE_PUFFS_def)
qed

text \<open>
  Two bursts of eight (\<open>Math.random()\<close> returning 0.9) fill the pool; a third call then
  changes nothing.
\<close>

theorem smoke_pool_never_exceeds_capacity_witness:
  "length (activeSmokePuffs (fst (smokeRun (\<lambda>_. 9 / 10)
      [Emit (vec3 0 0 0) 1, Emit (vec3 0 0 0) 1] (initialSmokeState, 0)))) = 15
   \<and> fst (emitSmokePuffs (vec3 0 0 0) 1 (\<lambda>_. 9 / 10) 0
        (fst (smokeRun (\<lambda>_. 9 / 10)
           [Emit (vec3 0 0 0) 1, Emit (vec3 0 0 0) 1] (initialSmokeState, 0))))
      = fst (smokeRun (\<lambda>_. 9 / 10)
           [Emit (vec3 0 0 0) 1, Emit (vec3 0 0 0) 1] (initialSmokeState, 0))"
proof -
  have full: "length (activeSmokePuffs (fst (smokeRun (\<lambda>_. 9 / 10)
      [Emit (vec3 0 0 0) 1, Emit (vec3 0 0 0) 1] (initialSmokeState, 0)))) = 15"
    by (simp add: smokeRun_def emitSmokePuffs_def initialSmokeState_def NUM_SMOKE_PUFFS_def
          Let_def upt_rec)
  from full smoke_pool_never_exceeds_capacity
         [where rnd = "\<lambda>_. 9 / 10" and evs = "[Emit (vec3 0 0 0) 1, Emit (vec3 0 0 0) 1]"
            and i = 0 and pos = "vec3 0 0 0" and countMultiplier = 1
            and rnd' = "\<lambda>_. 9 / 10" and j = 0]
  show ?thesis by blast
qed

section \<open>Properties of the orbit camera\<close>

lemma MAX_PHI_ABS_ge_half_pi: "pi / 2 \<le> MAX_PHI_ABS"
  using pi_ge_two by (simp add: MAX_PHI_ABS_def)

lemma maxPhiForGround_le: "maxPhiForGround radius targetY \<le> MAX_PHI_ABS"
  by (simp add: maxPhiForGround_def Let_def)

lemma clamp_bounds: "lo \<le> clamp v lo hi \<and> clamp v lo hi \<le> max lo hi"
  by (simp add: clamp_def)

lemma clamp_id: "lo \<le> v \<Longrightarrow> v \<le> hi \<Longrightarrow> clamp v lo hi = v"
  by (simp add: clamp_def)

lemma onWindowPointerMoveCallback_handled:
  assumes "cameraIsDragging rig" "activeCameraPointerId rig = Some (pointerId event)"
  shows "cameraPhi (onWindowPointerMoveCallback event rig)
           = clamp (cameraPhi rig - (clientY event - snd (cameraLastPointerPos rig)) * 0.005)
               MIN_PHI_ABS (maxPhiForGround (cameraRadius rig) (vy (cameraTarget rig)))"
    and "cameraTheta (onWindowPointerMoveCallback event rig)
           = cameraTheta rig - (clientX event - fst (cameraLastPointerPos rig)) * 0.005"
  using assms by (simp_all add: onWindowPointerMoveCallback_def Let_def)

text \<open>
  C4, as the code has it. On a pointer-move with ratio
  \<open>(MIN_CAMERA_Y_POSITION - targetHeight) / radius\<close>: when the radius is above 0.001 and the
  ratio is above 1, the maximum polar angle is \<open>\<pi>/2\<close>; when the ratio is below \<open>-1\<close>, or
  the radius is at most 0.001, it is \<open>\<pi> - 0.1\<close>. A handled move leaves the polar angle in
  \<open>[0.1, \<pi> - 0.1]\<close>, and in \<open>[0.1, \<pi>/2]\<close> when the ratio is above 1.
\<close>

theorem maxPhiForGround_fallbacks:
  "(radius > 0.001 \<and> (MIN_CAMERA_Y_POSITION - targetY) / radius > 1 \<longrightarrow>
       maxPhiForGround radius targetY = pi / 2)
   \<and> (radius > 0.001 \<and> (MIN_CAMERA_Y_POSITION - targetY) / radius < - 1 \<longrightarrow>
       maxPhiForGround radius targetY = pi - 0.1)
   \<and> (radius \<le> 0.001 \<longrightarrow> maxPhiForGround radius targetY = pi - 0.1)
   \<and> (cameraIsDragging rig \<and> activeCameraPointerId rig = Some (pointerId event) \<longrightarrow>
         0.1 \<le> cameraPhi (onWindowPointerMoveCallback event rig)
         \<and> cameraPhi (onWindowPointerMoveCallback event rig) \<le> pi - 0.1
         \<and> (cameraRadius rig > 0.001
              \<and> (MIN_CAMERA_Y_POSITION - vy (cameraTarget rig)) / cameraRadius rig > 1 \<longrightarrow>
              cameraPhi (onWindowPointerMoveCallback event rig) \<le> pi / 2))"
proof -
  have unfold: "maxPhiForGround r y =
      (if cv \<ge> - 1 \<and> cv \<le> 1 then min MAX_PHI_ABS (arccos cv)
       else if cv > 1 then min MAX_PHI_ABS (pi / 2) else MAX_PHI_ABS)"
    if "r > 0.001" "cv = (MIN_CAMERA_Y_POSITION - y) / r" for r y cv
    using that(1) unfolding maxPhiForGround_def Let_def that(2) by (simp only: if_True)
  have hi: "radius > 0.001 \<and> (MIN_CAMERA_Y_POSITION - targetY) / radius > 1 \<longrightarrow>
       maxPhiForGround radius targetY = pi / 2" for radius targetY
  proof (intro impI, elim conjE)
    assume r: "radius > 0.001" and c: "(MIN_CAMERA_Y_POSITION - targetY) / radius > 1"
    define cv where "cv = (MIN_CAMERA_Y_POSITION - targetY) / radius"
    from c have "cv > 1" by (simp only: cv_def)
    with unfold [OF r cv_def] MAX_PHI_ABS_ge_half_pi
    show "maxPhiForGround radius targetY = pi / 2" by simp
  qed
  have lo: "radius > 0.001 \<and> (MIN_CAMERA_Y_POSITION - targetY) / radius < - 1 \<longrightarrow>
       maxPhiForGround radius targetY = pi - 0.1"
  proof (intro impI, elim conjE)
    assume r: "radius > 0.001" and c: "(MIN_CAMERA_Y_POSITION - targetY) / radius < - 1"
    define cv where "cv = (MIN_CAMERA_Y_POSITION - targetY) / radius"
    from c have "cv < - 1" by (simp only: cv_def)
    with unfold [OF r cv_def]
    show "maxPhiForGround radius targetY = pi - 0.1" by (simp add: MAX_PHI_ABS_def)
  qed
  have small: "radius \<le> 0.001 \<longrightarrow> maxPhiForGround radius targetY = pi - 0.1"
    by (simp add: maxPhiForGround_def MAX_PHI_ABS_def)
  have moved: "0.1 \<le> cameraPhi (onWindowPointerMoveCallback event rig)
         \<and> cameraPhi (onWindowPointerMoveCallback event rig) \<le> pi - 0.1
         \<and> (cameraRadius rig > 0.001
              \<and> (MIN_CAMERA_Y_POSITION - vy (cameraTarget rig)) / cameraRadius rig > 1 \<longrightarrow>
              cameraPhi (onWindowPointerMoveCallback event rig) \<le> pi / 2)"
    if h: "cameraIsDragging rig" "activeCameraPointerId rig = Some (pointerId event)"
  proof -
    define m where "m = maxPhiForGround (cameraRadius rig) (vy (cameraTarget rig))"
    define c where "c = cameraPhi (onWindowPointerMoveCallback event rig)"
    have phi: "c = clamp (cameraPhi rig - (clientY event - snd (cameraLastPointerPos rig)) * 0.005)
                     MIN_PHI_ABS m"
      unfolding c_def m_def by (rule onWindowPointerMoveCallback_handled(1) [OF h])
    have b: "MIN_PHI_ABS \<le> c \<and> c \<le> max MIN_PHI_ABS m"
      unfolding phi by (rule clamp_bounds)
    have m: "m \<le> MAX_PHI_ABS" unfolding m_def by (rule maxPhiForGround_le)
    have "MIN_PHI_ABS \<le> MAX_PHI_ABS"
      using pi_ge_two by (simp add: MIN_PHI_ABS_def MAX_PHI_ABS_def)
    with m have "max MIN_PHI_ABS m \<le> MAX_PHI_ABS" by simp
    with b have top: "c \<le> MAX_PHI_ABS" by linarith
    have half: "c \<le> pi / 2"
      if "cameraRadius rig > 0.001
              \<and> (MIN_CAMERA_Y_POSITION - vy (cameraTarget rig)) / cameraRadius rig > 1"
    proof -
      from hi that have "m = pi / 2" unfolding m_def by blast
      moreover have "MIN_PHI_ABS \<le> pi / 2" using pi_ge_two by (simp add: MIN_PHI_ABS_def)
      ultimately have "max MIN_PHI_ABS m = pi / 2" by simp
      with b show ?thesis by linarith
    qed
    from b top half show ?thesis
      unfolding c_def MIN_PHI_ABS_def MAX_PHI_ABS_def by blast
  qed
  from hi lo small moved show ?thesis by blast
qed

text \<open>
  The four cases at concrete inputs: ratio 3, ratio \<open>-1.6\<close>, radius 0, and handled moves
  of the initial rig (one with the target lowered so that the ratio is above 1).
\<close>

theorem maxPhiForGround_fallbacks_witness:
  "(1 / 2 :: real) > 0.001 \<and> (MIN_CAMERA_Y_POSITION - (- 1)) / (1 / 2) > 1
   \<and> maxPhiForGround (1 / 2) (- 1) = pi / 2
   \<and> (MIN_CAMERA_Y_POSITION - 1.3) / (1 / 2) < - 1
   \<and> maxPhiForGround (1 / 2) 1.3 = pi - 0.1
   \<and> (0 :: real) \<le> 0.001
   \<and> maxPhiForGround 0 1.3 = pi - 0.1
   \<and> cameraIsDragging (initialCameraRig\<lparr>cameraIsDragging := True, activeCameraPointerId := Some 1\<rparr>)
   \<and> 0.1 \<le> cameraPhi (onWindowPointerMoveCallback \<lparr>pointerId = 1, clientX = 0, clientY = 40\<rparr>
                (initialCameraRig\<lparr>cameraIsDragging := True, activeCameraPointerId := Some 1\<rparr>))
   \<and> cameraPhi (onWindowPointerMoveCallback \<lparr>pointerId = 1, clientX = 0, clientY = 40\<rparr>
                (initialCameraRig\<lparr>cameraIsDragging := True, activeCameraPointerId := Some 1\<rparr>))
        \<le> pi - 0.1
   \<and> (MIN_CAMERA_Y_POSITION - vy (cameraTarget (initialCameraRig\<lparr>cameraIsDragging := True,
          activeCameraPointerId := Some 1, cameraTarget := vec3 0 (- 20) 0\<rparr>))) / 18 > 1
   \<and> cameraPhi (onWindowPointerMoveCallback \<lparr>pointerId = 1, clientX = 0, clientY = - 400\<rparr>
                (initialCameraRig\<lparr>cameraIsDragging := True, activeCameraPointerId := Some 1,
                   cameraTarget := vec3 0 (- 20) 0\<rparr>))
        \<le> pi / 2"
proof -
  have a: "(1 / 2 :: real) > 0.001 \<and> (MIN_CAMERA_Y_POSITION - (- 1)) / (1 / 2) > 1"
    by (simp add: MIN_CAMERA_Y_POSITION_def)
  have b: "(1 / 2 :: real) > 0.001 \<and> (MIN_CAMERA_Y_POSITION - 1.3) / (1 / 2) < - 1"
    by (simp add: MIN_CAMERA_Y_POSITION_def)
  have c: "(0 :: real) \<le> 0.001" by simp
  have d: "cameraIsDragging (initialCameraRig\<lparr>cameraIsDragging := True, activeCameraPointerId := Some 1\<rparr>)
      \<and> activeCameraPointerId (initialCameraRig\<lparr>cameraIsDragging := True, activeCameraPointerId := Some 1\<rparr>)
          = Some (pointerId \<lparr>pointerId = 1, clientX = 0, clientY = 40\<rparr>)"
    by simp
  have e: "cameraIsDragging (initialCameraRig\<lparr>cameraIsDragging := True,
          activeCameraPointerId := Some 1, cameraTarget := vec3 0 (- 20) 0\<rparr>)
      \<and> activeCameraPointerId (initialCameraRig\<lparr>cameraIsDragging := True,
          activeCameraPointerId := Some 1, cameraTarget := vec3 0 (- 20) 0\<rparr>)
          = Some (pointerId \<lparr>pointerId = 1, clientX = 0, clientY = - 400\<rparr>)
      \<and> cameraRadius (initialCameraRig\<lparr>cameraIsDragging := True,
          activeCameraPointerId := Some 1, cameraTarget := vec3 0 (- 20) 0\<rparr>) > 0.001
      \<and> (MIN_CAMERA_Y_POSITION - vy (cameraTarget (initialCameraRig\<lparr>cameraIsDragging := True,
          activeCameraPointerId := Some 1, cameraTarget := vec3 0 (- 20) 0\<rparr>)))
           / cameraRadius (initialCameraRig\<lparr>cameraIsDragging := True,
          activeCameraPointerId := Some 1, cameraTarget := vec3 0 (- 20) 0\<rparr>) > 1
      \<and> (MIN_CAMERA_Y_POSITION - vy (cameraTarget (initialCameraRig\<lparr>cameraIsDragging := True,
          activeCameraPointerId := Some 1, cameraTarget := vec3 0 (- 20) 0\<rparr>))) / 18 > 1"
    by (simp add: initialCameraRig_def vec3_def MIN_CAMERA_Y_POSITION_def)
  from a b c d e
    maxPhiForGround_fallbacks [where radius = 0 and targetY = 0
       and rig = "initialCameraRig\<lparr>cameraIsDragging := True, activeCameraPointerId := Some 1,
                    cameraTarget := vec3 0 (- 20) 0\<rparr>"
       and event = "\<lparr>pointerId = 1, clientX = 0, clientY = - 400\<rparr>"]
    maxPhiForGround_fallbacks [where radius = "1 / 2" and targetY = "- 1"]
    maxPhiForGround_fallbacks [where radius = "1 / 2" and targetY = "1.3"]
    maxPhiForGround_fallbacks [where radius = 0 and targetY = "1.3"
       and rig = "initialCameraRig\<lparr>cameraIsDragging := True, activeCameraPointerId := Some 1\<rparr>"
       and event = "\<lparr>pointerId = 1, clientX = 0, clientY = 40\<rparr>"]
  show ?thesis by blast
qed

text \<open>
  C4 as stated fails: with the camera target at height 1.3 and radius 0.5 the ratio is
  \<open>-1.6\<close>, outside \<open>[-1, 1]\<close>, and with radius 0 the geometry is degenerate; in both a
  polar angle of \<open>3\<pi>/4\<close> is kept by a move, so it is not clamped into \<open>[0.1, \<pi>/2]\<close>.
\<close>

theorem polar_fallback_counterexample:
  "(MIN_CAMERA_Y_POSITION - 1.3) / (1 / 2) < - 1
   \<and> cameraPhi (onWindowPointerMoveCallback \<lparr>pointerId = 1, clientX = 0, clientY = 0\<rparr>
        \<lparr>cameraIsDragging = True, cameraLastPointerPos = (0, 0), cameraPhi = 3 * pi / 4,
         cameraTheta = 0, cameraRadius = 1 / 2, cameraTarget = vec3 0 1.3 0,
         activeCameraPointerId = Some 1\<rparr>) = 3 * pi / 4
   \<and> cameraPhi (onWindowPointerMoveCallback \<lparr>pointerId = 1, clientX = 0, clientY = 0\<rparr>
        \<lparr>cameraIsDragging = True, cameraLastPointerPos = (0, 0), cameraPhi = 3 * pi / 4,
         cameraTheta = 0, cameraRadius = 0, cameraTarget = vec3 0 1.3 0,
         activeCameraPointerId = Some 1\<rparr>) = 3 * pi / 4
   \<and> 3 * pi / 4 > pi / 2"
proof -
  have "(0.1::real) \<le> 3 * pi / 4" "3 * pi / 4 \<le> pi - 0.1"
    using pi_ge_two by simp_all
  then have "clamp (3 * pi / 4) MIN_PHI_ABS MAX_PHI_ABS = 3 * pi / 4"
    by (simp add: clamp_id MIN_PHI_ABS_def MAX_PHI_ABS_def)
  then show ?thesis
    by (simp add: onWindowPointerMoveCallback_def maxPhiForGround_def Let_def vec3_def
          MIN_CAMERA_Y_POSITION_def)
qed

lemma initial_phi_in_range:
  "MIN_PHI_ABS \<le> pi / 3.5 \<and> pi / 3.5 \<le> maxPhiForGround 18 CHARACTER_BASE_Y"
proof -
  have "arccos (- (1 / 60)) = pi - arccos (1 / 60)"
    by (rule arccos_minus) simp_all
  moreover have "arccos (1 / 60) \<le> pi / 2"
    by (rule arccos_le_pi2) simp_all
  ultimately have "pi / 2 \<le> arccos (- (1 / 60))" by simp
  moreover have "maxPhiForGround 18 CHARACTER_BASE_Y = min MAX_PHI_ABS (arccos (- (1 / 60)))"
    by (simp add: maxPhiForGround_def Let_def CHARACTER_BASE_Y_def MIN_CAMERA_Y_POSITION_def)
  ultimately show ?thesis
    using pi_ge_two MAX_PHI_ABS_ge_half_pi by (simp add: MIN_PHI_ABS_def)
qed

lemma playerLogic_cameraTarget_y:
  "vy (snd (playerLogic delta joyInput cameraDir cameraUp refs)) = CHARACTER_BASE_Y + 0.5"
  by (simp add: playerLogic_def Let_def case_prod_beta vec3_def)

lemma maxPhiForGround_18:
  "maxPhiForGround 18 CHARACTER_BASE_Y = min MAX_PHI_ABS (arccos (- (1 / 60)))"
  "maxPhiForGround 18 (CHARACTER_BASE_Y + 0.5) = min MAX_PHI_ABS (arccos (- (2 / 45)))"
  by (simp_all add: maxPhiForGround_def Let_def CHARACTER_BASE_Y_def MIN_CAMERA_Y_POSITION_def)

lemma maxPhiForGround_18_mono:
  "maxPhiForGround 18 CHARACTER_BASE_Y \<le> maxPhiForGround 18 (CHARACTER_BASE_Y + 0.5)"
proof -
  have "arccos (- (1 / 60)) \<le> arccos (- (2 / 45))"
    by (subst arccos_le_mono) simp_all
  then show ?thesis unfolding maxPhiForGround_18 by (simp add: min_le_iff_disj)
qed

lemma maxPhiForGround_18_ge:
  "MIN_PHI_ABS \<le> maxPhiForGround 18 CHARACTER_BASE_Y"
  using initial_phi_in_range by linarith

lemma cameraReach_inv: "cameraReach rig \<Longrightarrow> cameraInv rig"
proof (induction rule: cameraReach.induct)
  case reach_initial
  then show ?case
    using initial_phi_in_range by (simp add: cameraInv_def initialCameraRig_def vec3_def)
next
  case (reach_down rig pointerType button captureOk event)
  then show ?case by (auto simp: cameraInv_def handleCanvasPointerDown_def)
next
  case (reach_move rig event)
  show ?case
  proof (cases "cameraIsDragging rig \<and> activeCameraPointerId rig = Some (pointerId event)")
    case False
    then have "onWindowPointerMoveCallback event rig = rig"
      by (auto simp: onWindowPointerMoveCallback_def)
    with reach_move.IH show ?thesis by simp
  next
    case True
    define m where "m = maxPhiForGround (cameraRadius rig) (vy (cameraTarget rig))"
    have lo: "MIN_PHI_ABS \<le> m"
      using reach_move.IH maxPhiForGround_18_ge maxPhiForGround_18_mono
      unfolding m_def cameraInv_def by auto
    have phi: "cameraPhi (onWindowPointerMoveCallback event rig)
        = clamp (cameraPhi rig - (clientY event - snd (cameraLastPointerPos rig)) * 0.005) MIN_PHI_ABS m"
      unfolding m_def using True by (intro onWindowPointerMoveCallback_handled(1)) simp_all
    have same: "cameraRadius (onWindowPointerMoveCallback event rig) = cameraRadius rig"
      "cameraTarget (onWindowPointerMoveCallback event rig) = cameraTarget rig"
      by (simp_all add: onWindowPointerMoveCallback_def Let_def)
    have "MIN_PHI_ABS \<le> cameraPhi (onWindowPointerMoveCallback event rig)
          \<and> cameraPhi (onWindowPointerMoveCallback event rig) \<le> m"
      unfolding phi using lo by (simp add: clamp_def)
    then show ?thesis
      using reach_move.IH same unfolding cameraInv_def m_def by auto
  qed
next
  case (reach_up rig event)
  then show ?case by (auto simp: cameraInv_def onWindowPointerUpOrCancelCallback_def)
next
  case (reach_frame rig delta joyInput cameraDir cameraUp refs)
  have "cameraPhi rig \<le> maxPhiForGround 18 (CHARACTER_BASE_Y + 0.5)"
    using reach_frame.IH maxPhiForGround_18_mono unfolding cameraInv_def by auto
  then show ?case
    using reach_frame.IH by (auto simp: cameraInv_def playerLogic_cameraTarget_y)
qed

text \<open>
  C9. In every rig a session can reach, a pointer-move of the captured pointer with
  \<open>dx = 100\<close> and \<open>dy = 0\<close> lowers the azimuth by exactly 0.5 (the code does not wrap it)
  and leaves the polar angle as it was: the polar angle of a reachable rig is in its
  clamp range already.
\<close>

theorem drag_100_0:
  assumes "cameraReach rig"
      and "cameraIsDragging rig"
      and "activeCameraPointerId rig = Some (pointerId event)"
      and "clientX event - fst (cameraLastPointerPos rig) = 100"
      and "clientY event - snd (cameraLastPointerPos rig) = 0"
  shows "cameraTheta (onWindowPointerMoveCallback event rig) = cameraTheta rig - 0.5
         \<and> cameraPhi (onWindowPointerMoveCallback event rig) = cameraPhi rig"
proof -
  from cameraReach_inv [OF assms(1)]
  have "MIN_PHI_ABS \<le> cameraPhi rig"
    "cameraPhi rig \<le> maxPhiForGround (cameraRadius rig) (vy (cameraTarget rig))"
    by (auto simp: cameraInv_def)
  then show ?thesis
    using assms(4,5) onWindowPointerMoveCallback_handled [OF assms(2,3)]
    by (simp add: clamp_id)
qed

text \<open>
  The scenario on the rig the setup leaves, after a pointer-down of pointer 1 at \<open>(0, 0)\<close>.
\<close>

theorem drag_100_0_witness:
  "cameraReach (handleCanvasPointerDown ''touch'' 0 True \<lparr>pointerId = 1, clientX = 0, clientY = 0\<rparr>
                  initialCameraRig)
   \<and> cameraIsDragging (handleCanvasPointerDown ''touch'' 0 True
                  \<lparr>pointerId = 1, clientX = 0, clientY = 0\<rparr> initialCameraRig)
   \<and> activeCameraPointerId (handleCanvasPointerDown ''touch'' 0 True
                  \<lparr>pointerId = 1, clientX = 0, clientY = 0\<rparr> initialCameraRig) = Some 1
   \<and> cameraTheta (onWindowPointerMoveCallback \<lparr>pointerId = 1, clientX = 100, clientY = 0\<rparr>
        (handleCanvasPointerDown ''touch'' 0 True \<lparr>pointerId = 1, clientX = 0, clientY = 0\<rparr>
           initialCameraRig)) = - 0.5
   \<and> cameraPhi (onWindowPointerMoveCallback \<lparr>pointerId = 1, clientX = 100, clientY = 0\<rparr>
        (handleCanvasPointerDown ''touch'' 0 True \<lparr>pointerId = 1, clientX = 0, clientY = 0\<rparr>
           initialCameraRig)) = pi / 3.5"
proof -
  let ?rig = "handleCanvasPointerDown ''touch'' 0 True \<lparr>pointerId = 1, clientX = 0, clientY = 0\<rparr>
                initialCameraRig"
  let ?ev = "\<lparr>pointerId = 1, clientX = 100, clientY = 0\<rparr>"
  have r: "cameraReach ?rig" by (intro cameraReach.reach_down cameraReach.reach_initial)
  have h: "cameraIsDragging ?rig" "activeCameraPointerId ?rig = Some (pointerId ?ev)"
    "clientX ?ev - fst (cameraLastPointerPos ?rig) = 100"
    "clientY ?ev - snd (cameraLastPointerPos ?rig) = 0"
    by (simp_all add: handleCanvasPointerDown_def initialCameraRig_def)
  have v: "cameraTheta ?rig = 0" "cameraPhi ?rig = pi / 3.5"
    by (simp_all add: handleCanvasPointerDown_def initialCameraRig_def)
  from drag_100_0 [OF r h] r h v show ?thesis by simp
qed

section \<open>Properties of the roam target\<close>

lemma roamAttempts_Some:
  "roamAttempts n mapR currentPos bluePos redPos rnd i = (Some t, j) \<Longrightarrow>
     (\<exists>k. t = vec3 ((rnd k - 0.5) * 2 * (mapR * 0.95)) 0 ((rnd (k + 1) - 0.5) * 2 * (mapR * 0.95)))
     \<and> lengthSq t \<le> (mapR * 0.95) * (mapR * 0.95)
     \<and> (distanceToSquared t bluePos \<ge> (mapR * 0.3) * (mapR * 0.3) \<or> vz currentPos \<le> 0)
     \<and> distanceToSquared t redPos \<ge> (mapR * 0.2) * (mapR * 0.2)
     \<and> i + 2 \<le> j \<and> j \<le> i + 2 * n"
proof (induction n arbitrary: i)
  case 0
  then show ?case by simp
next
  case (Suc n)
  let ?t = "vec3 ((rnd i - 0.5) * 2 * (mapR * 0.95)) 0 ((rnd (i + 1) - 0.5) * 2 * (mapR * 0.95))"
  let ?rej = "lengthSq ?t > (mapR * 0.95) * (mapR * 0.95)
      \<or> (distanceToSquared ?t bluePos < (mapR * 0.3) * (mapR * 0.3) \<and> vz currentPos > 0)
      \<or> distanceToSquared ?t redPos < (mapR * 0.2) * (mapR * 0.2)"
  show ?case
  proof (cases ?rej)
    case True
    then have "roamAttempts (Suc n) mapR currentPos bluePos redPos rnd i
                = roamAttempts n mapR currentPos bluePos redPos rnd (i + 2)"
      by (auto simp: Let_def)
    with Suc.prems have "roamAttempts n mapR currentPos bluePos redPos rnd (i + 2) = (Some t, j)"
      by simp
    from Suc.IH [OF this] show ?thesis by auto
  next
    case False
    then have "roamAttempts (Suc n) mapR currentPos bluePos redPos rnd i = (Some ?t, i + 2)"
      by (auto simp: Let_def)
    with Suc.prems have "t = ?t" "j = i + 2" by simp_all
    with False show ?thesis by (auto simp: not_less)
  qed
qed

lemma roamAttempts_None:
  "roamAttempts n mapR currentPos bluePos redPos rnd i = (None, j) \<Longrightarrow> j = i + 2 * n"
proof (induction n arbitrary: i)
  case 0
  then show ?case by simp
next
  case (Suc n)
  from Suc.prems have "roamAttempts n mapR currentPos bluePos redPos rnd (i + 2) = (None, j)"
    by (auto simp: Let_def split: if_splits)
  from Suc.IH [OF this] show ?case by simp
qed

lemma sample_in_square:
  fixes r b :: real
  assumes "0 \<le> r" "r < 1" "0 \<le> b"
  shows "\<bar>(r - 0.5) * 2 * b\<bar> \<le> b"
proof -
  have "\<bar>(r - 0.5) * 2\<bar> \<le> 1" unfolding abs_le_iff using assms by auto
  then have "\<bar>(r - 0.5) * 2\<bar> * b \<le> 1 * b" using assms(3) by (rule mult_right_mono)
  then show ?thesis using assms(3) by (simp add: abs_mult)
qed

lemma fallback_in_square:
  fixes r b :: real
  assumes "0 \<le> r" "r < 1" "0 \<le> b"
  shows "\<bar>(r - 0.5) * b\<bar> \<le> b / 2"
proof -
  have "\<bar>r - 0.5\<bar> \<le> 1 / 2" unfolding abs_le_iff using assms by auto
  then have "\<bar>r - 0.5\<bar> * b \<le> 1 / 2 * b" using assms(3) by (rule mult_right_mono)
  then show ?thesis using assms(3) by (simp add: abs_mult)
qed

text \<open>
  C8, as the code has it. With every \<open>Math.random()\<close> value in \<open>[0, 1)\<close>, a roam target is
  a ground point with both coordinates in \<open>[-47.5, 47.5]\<close>, found after at most 10
  samples and one fallback (at most 22 random numbers). Either it is an accepted sample:
  it lies in the disc of radius \<open>0.95 \<times> mapRadius = 47.5\<close> about the origin, at least 10
  from the red fountain and, when the enemy's \<open>z\<close> is positive, at least 15 from the blue
  fountain. Or all 10 samples were rejected and it is the fallback point, drawn with no
  test from the square of half-width 23.75, which lies inside the arena. When the enemy
  takes a new roam target, the same step stores the state and sets the roam timer to
  \<open>4 + 4r\<close> for the next random value \<open>r\<close>, a value in \<open>[4, 8)\<close>.
\<close>

theorem getRandomRoamTarget_properties:
  assumes rnd: "\<forall>n. 0 \<le> rnd n \<and> rnd n < 1"
  shows "(case getRandomRoamTarget mapRadius currentPos blueFountainPosition redFountainPosition rnd i of
            (target, j) \<Rightarrow>
               vy target = 0 \<and> \<bar>vx target\<bar> \<le> 47.5 \<and> \<bar>vz target\<bar> \<le> 47.5
               \<and> i + 2 \<le> j \<and> j \<le> i + 22
               \<and> ((lengthSq target \<le> 47.5 ^ 2
                     \<and> distanceToSquared target redFountainPosition \<ge> 10 ^ 2
                     \<and> (distanceToSquared target blueFountainPosition \<ge> 15 ^ 2 \<or> vz currentPos \<le> 0))
                    \<or> (j = i + 22 \<and> \<bar>vx target\<bar> \<le> 23.75 \<and> \<bar>vz target\<bar> \<le> 23.75
                         \<and> \<not> outsideArena target)))
         \<and> (forceNewRoamTarget d \<longrightarrow>
              (case enemyRetarget rnd d (enemy, i) of
                 (enemy', k) \<Rightarrow>
                    currentTarget enemy' = fst (getRandomRoamTarget mapRadius (position enemy)
                                                  blueFountainPosition redFountainPosition rnd i)
                    \<and> aiState enemy' = newAiState d
                    \<and> 4 \<le> roamTimer enemy' \<and> roamTimer enemy' < 8))"
proof -
  obtain r j where ra:
    "roamAttempts 10 mapRadius currentPos blueFountainPosition redFountainPosition rnd i = (r, j)"
    by (cases "roamAttempts 10 mapRadius currentPos blueFountainPosition redFountainPosition rnd i")
  have first: "(case getRandomRoamTarget mapRadius currentPos blueFountainPosition redFountainPosition rnd i of
            (target, j) \<Rightarrow>
               vy target = 0 \<and> \<bar>vx target\<bar> \<le> 47.5 \<and> \<bar>vz target\<bar> \<le> 47.5
               \<and> i + 2 \<le> j \<and> j \<le> i + 22
               \<and> ((lengthSq target \<le> 47.5 ^ 2
                     \<and> distanceToSquared target redFountainPosition \<ge> 10 ^ 2
                     \<and> (distanceToSquared target blueFountainPosition \<ge> 15 ^ 2 \<or> vz currentPos \<le> 0))
                    \<or> (j = i + 22 \<and> \<bar>vx target\<bar> \<le> 23.75 \<and> \<bar>vz target\<bar> \<le> 23.75
                         \<and> \<not> outsideArena target)))"
  proof (cases r)
    case (Some t)
    from roamAttempts_Some [OF ra [unfolded Some]] obtain k where
      t: "t = vec3 ((rnd k - 0.5) * 2 * (mapRadius * 0.95)) 0 ((rnd (k + 1) - 0.5) * 2 * (mapRadius * 0.95))"
      and disc: "lengthSq t \<le> (mapRadius * 0.95) * (mapRadius * 0.95)"
      and bl: "distanceToSquared t blueFountainPosition \<ge> (mapRadius * 0.3) * (mapRadius * 0.3)
                \<or> vz currentPos \<le> 0"
      and rd: "distanceToSquared t redFountainPosition \<ge> (mapRadius * 0.2) * (mapRadius * 0.2)"
      and j: "i + 2 \<le> j" "j \<le> i + 2 * 10"
      by blast
    have sx: "\<bar>(rnd k - 0.5) * 2 * (mapRadius * 0.95)\<bar> \<le> mapRadius * 0.95"
      using rnd by (intro sample_in_square) (simp_all add: mapRadius_def)
    have sz: "\<bar>(rnd (k + 1) - 0.5) * 2 * (mapRadius * 0.95)\<bar> \<le> mapRadius * 0.95"
      using rnd by (intro sample_in_square) (simp_all add: mapRadius_def)
    have g: "getRandomRoamTarget mapRadius currentPos blueFountainPosition redFountainPosition rnd i = (t, j)"
      using ra Some by (simp add: getRandomRoamTarget_def)
    have "vy t = 0" "\<bar>vx t\<bar> \<le> 47.5" "\<bar>vz t\<bar> \<le> 47.5"
      using sx sz unfolding t by (simp_all add: vec3_def mapRadius_def)
    moreover have "lengthSq t \<le> 47.5 ^ 2" "distanceToSquared t redFountainPosition \<ge> 10 ^ 2"
      "distanceToSquared t blueFountainPosition \<ge> 15 ^ 2 \<or> vz currentPos \<le> 0"
      using disc rd bl by (simp_all add: mapRadius_def power2_eq_square)
    ultimately show ?thesis using g j by simp
  next
    case None
    from roamAttempts_None [OF ra [unfolded None]] have j: "j = i + 20" by simp
    define t where "t = vec3 ((rnd j - 0.5) * (mapRadius * 0.95)) 0 ((rnd (j + 1) - 0.5) * (mapRadius * 0.95))"
    have g: "getRandomRoamTarget mapRadius currentPos blueFountainPosition redFountainPosition rnd i
              = (t, j + 2)"
      using ra None by (simp add: getRandomRoamTarget_def t_def Let_def)
    have sx: "\<bar>(rnd j - 0.5) * (mapRadius * 0.95)\<bar> \<le> mapRadius * 0.95 / 2"
      using rnd by (intro fallback_in_square) (simp_all add: mapRadius_def)
    have sz: "\<bar>(rnd (j + 1) - 0.5) * (mapRadius * 0.95)\<bar> \<le> mapRadius * 0.95 / 2"
      using rnd by (intro fallback_in_square) (simp_all add: mapRadius_def)
    have c: "vy t = 0" "\<bar>vx t\<bar> \<le> 23.75" "\<bar>vz t\<bar> \<le> 23.75"
      using sx sz unfolding t_def by (simp_all add: vec3_def mapRadius_def)
    then have "\<not> outsideArena t" by (simp add: outsideArena_def mapRadius_def)
    with c g j show ?thesis by simp
  qed
  have second: "forceNewRoamTarget d \<longrightarrow>
              (case enemyRetarget rnd d (enemy, i) of
                 (enemy', k) \<Rightarrow>
                    currentTarget enemy' = fst (getRandomRoamTarget mapRadius (position enemy)
                                                  blueFountainPosition redFountainPosition rnd i)
                    \<and> aiState enemy' = newAiState d
                    \<and> 4 \<le> roamTimer enemy' \<and> roamTimer enemy' < 8)"
  proof
    assume f: "forceNewRoamTarget d"
    obtain t j where g: "getRandomRoamTarget mapRadius (position enemy)
                            blueFountainPosition redFountainPosition rnd i = (t, j)"
      by (cases "getRandomRoamTarget mapRadius (position enemy)
                            blueFountainPosition redFountainPosition rnd i")
    from rnd have "0 \<le> rnd j" "rnd j < 1" by simp_all
    then show "case enemyRetarget rnd d (enemy, i) of
                 (enemy', k) \<Rightarrow>
                    currentTarget enemy' = fst (getRandomRoamTarget mapRadius (position enemy)
                                                  blueFountainPosition redFountainPosition rnd i)
                    \<and> aiState enemy' = newAiState d
                    \<and> 4 \<le> roamTimer enemy' \<and> roamTimer enemy' < 8"
      using f g
      by (simp add: enemyRetarget_def ENEMY_ROAM_TARGET_UPDATE_MIN_INTERVAL_def
            ENEMY_ROAM_TARGET_UPDATE_MAX_INTERVAL_def)
  qed
  from first second show ?thesis by blast
qed

text \<open>
  With \<open>Math.random()\<close> returning 0.5 the first sample is the origin and is accepted; the
  enemy created by the setup then takes it and a roam timer of 6.
\<close>

theorem getRandomRoamTarget_properties_witness:
  "(\<forall>n. (0::real) \<le> (\<lambda>_. 1 / 2) n \<and> (\<lambda>_. 1 / 2 :: real) n < 1)
   \<and> forceNewRoamTarget \<lparr>newAiState = ROAMING, newTarget = vec3 1 0 1, forceNewRoamTarget = True\<rparr>
   \<and> (case getRandomRoamTarget mapRadius redFountainPosition blueFountainPosition
             redFountainPosition (\<lambda>_. 1 / 2) 0 of
         (target, j) \<Rightarrow> \<bar>vx target\<bar> \<le> 47.5 \<and> \<bar>vz target\<bar> \<le> 47.5 \<and> j \<le> 22)
   \<and> (case enemyRetarget (\<lambda>_. 1 / 2)
               \<lparr>newAiState = ROAMING, newTarget = vec3 1 0 1, forceNewRoamTarget = True\<rparr>
               (fst (initialEnemyState (\<lambda>_. 1 / 2) 0), 0) of
         (enemy', k) \<Rightarrow> 4 \<le> roamTimer enemy' \<and> roamTimer enemy' < 8)"
proof -
  have r: "\<forall>n. (0::real) \<le> (\<lambda>_. 1 / 2) n \<and> (\<lambda>_. 1 / 2 :: real) n < 1" by simp
  have f: "forceNewRoamTarget \<lparr>newAiState = ROAMING, newTarget = vec3 1 0 1, forceNewRoamTarget = True\<rparr>"
    by simp
  from r f getRandomRoamTarget_properties
      [OF r, where currentPos = redFountainPosition and i = 0
         and d = "\<lparr>newAiState = ROAMING, newTarget = vec3 1 0 1, forceNewRoamTarget = True\<rparr>"
         and enemy = "fst (initialEnemyState (\<lambda>_. 1 / 2) 0)"]
  show ?thesis by (auto split: prod.splits)
qed

lemma ten_Suc: "(10::nat) = Suc 9"
  by simp

lemma roamAttempts_10:
  "roamAttempts 10 mapR currentPos blueFountainPos redFountainPos rnd i =
     (let boundary = mapR * 0.95;
          blueBaseAvoidRadius = mapR * 0.3;
          redBaseAvoidRadius = mapR * 0.2;
          x = (rnd i - 0.5) * 2 * boundary;
          z = (rnd (i + 1) - 0.5) * 2 * boundary;
          targetPos = vec3 x 0 z
      in if lengthSq targetPos > boundary * boundary
         then roamAttempts 9 mapR currentPos blueFountainPos redFountainPos rnd (i + 2)
         else if distanceToSquared targetPos blueFountainPos < blueBaseAvoidRadius * blueBaseAvoidRadius
                 \<and> vz currentPos > 0
         then roamAttempts 9 mapR currentPos blueFountainPos redFountainPos rnd (i + 2)
         else if distanceToSquared targetPos redFountainPos < redBaseAvoidRadius * redBaseAvoidRadius
         then roamAttempts 9 mapR currentPos blueFountainPos redFountainPos rnd (i + 2)
         else (Some targetPos, i + 2))"
  unfolding ten_Suc by (rule roamAttempts.simps(2))

lemma getRandomRoamTarget_half:
  "getRandomRoamTarget mapRadius currentPos blueFountainPosition redFountainPosition (\<lambda>_. 1 / 2) i
     = (vec3 0 0 0, i + 2)"
  by (simp add: getRandomRoamTarget_def roamAttempts_10 Let_def vec3_def lengthSq_def
        distanceToSquared_def blueFountainPosition_def redFountainPosition_def mapRadius_def)

text \<open>
  C8 as stated fails: with \<open>Math.random()\<close> returning \<open>31/38\<close> the first sample is
  \<open>(30, 0, 30)\<close>; it is accepted, and \<open>|30| + |30| = 60\<close> is beyond the arena's boundary
  \<open>0.98 \<times> mapRadius = 49\<close>.
\<close>

theorem roam_target_outside_arena_counterexample:
  "fst (getRandomRoamTarget mapRadius redFountainPosition blueFountainPosition redFountainPosition
          (\<lambda>_. 31 / 38) 0) = vec3 30 0 30
   \<and> outsideArena (vec3 30 0 30)"
  by (simp add: getRandomRoamTarget_def roamAttempts_10 Let_def vec3_def lengthSq_def
        distanceToSquared_def blueFountainPosition_def redFountainPosition_def mapRadius_def
        outsideArena_def)

section \<open>Properties of the enemy's frame\<close>

lemma enemyTimers_keeps:
  "position (enemyTimers delta enemy) = position enemy"
  "rotationY (enemyTimers delta enemy) = rotationY enemy"
  "aiState (enemyTimers delta enemy) = aiState enemy"
  "isAttackingVisual (enemyTimers delta enemy) = isAttackingVisual enemy"
  "attackEffectTimer (enemyTimers delta enemy) = attackEffectTimer enemy"
  "currentTarget (enemyTimers delta enemy) = currentTarget enemy"
  "meshRef (enemyTimers delta enemy) = meshRef enemy"
  "originalColor (enemyTimers delta enemy) = originalColor enemy"
  by (simp_all add: enemyTimers_def)

lemma enemyAttackVisual_keeps:
  "position (enemyAttackVisual delta enemy) = position enemy"
  "rotationY (enemyAttackVisual delta enemy) = rotationY enemy"
  "aiState (enemyAttackVisual delta enemy) = aiState enemy"
  "currentTarget (enemyAttackVisual delta enemy) = currentTarget enemy"
  "attackCooldownTimer (enemyAttackVisual delta enemy) = attackCooldownTimer enemy"
  "roamTimer (enemyAttackVisual delta enemy) = roamTimer enemy"
  "originalColor (enemyAttackVisual delta enemy) = originalColor enemy"
  by (simp_all add: enemyAttackVisual_def Let_def)

lemma enemyEvaluate_keeps:
  "position (fst (snd (enemyEvaluate playerPos towers rnd (enemy, smoke, i)))) = position enemy"
  "rotationY (fst (snd (enemyEvaluate playerPos towers rnd (enemy, smoke, i)))) = rotationY enemy"
  "meshRef (fst (snd (enemyEvaluate playerPos towers rnd (enemy, smoke, i)))) = meshRef enemy"
  by (simp_all add: enemyEvaluate_def Let_def split: option.splits prod.splits)

lemma enemyAttackHold_keeps:
  "position (snd (enemyAttackHold playerPos (d, enemy))) = position enemy"
  "rotationY (snd (enemyAttackHold playerPos (d, enemy))) = rotationY enemy"
  "meshRef (snd (enemyAttackHold playerPos (d, enemy))) = meshRef enemy"
  "isAttackingVisual (snd (enemyAttackHold playerPos (d, enemy))) = isAttackingVisual enemy"
  by (simp_all add: enemyAttackHold_def Let_def)

lemma enemyRetarget_keeps:
  "position (fst (enemyRetarget rnd d (enemy, i))) = position enemy"
  "rotationY (fst (enemyRetarget rnd d (enemy, i))) = rotationY enemy"
  "meshRef (fst (enemyRetarget rnd d (enemy, i))) = meshRef enemy"
  "isAttackingVisual (fst (enemyRetarget rnd d (enemy, i))) = isAttackingVisual enemy"
  "aiState (fst (enemyRetarget rnd d (enemy, i))) = newAiState d"
  by (simp_all add: enemyRetarget_def Let_def split: prod.splits)

lemma enemyDecide_keeps:
  "position (fst (enemyDecide delta playerPos towers rnd (enemy, smoke, i))) = position enemy"
  "rotationY (fst (enemyDecide delta playerPos towers rnd (enemy, smoke, i))) = rotationY enemy"
proof -
  obtain d e2 smoke' i' where ev:
    "enemyEvaluate playerPos towers rnd (enemyAttackVisual delta (enemyTimers delta enemy), smoke, i)
       = (d, e2, smoke', i')"
    by (metis prod_cases4)
  obtain d' e3 where ho: "enemyAttackHold playerPos (d, e2) = (d', e3)"
    by (metis surj_pair)
  obtain e4 i'' where re: "enemyRetarget rnd d' (e3, i') = (e4, i'')"
    by (metis surj_pair)
  have dec: "fst (enemyDecide delta playerPos towers rnd (enemy, smoke, i)) = e4"
    by (simp add: enemyDecide_def ev ho re)
  have p2: "position e2 = position enemy" "rotationY e2 = rotationY enemy"
    using enemyEvaluate_keeps(1,2)
            [of playerPos towers rnd "enemyAttackVisual delta (enemyTimers delta enemy)" smoke i]
    by (simp_all add: ev enemyAttackVisual_keeps enemyTimers_keeps)
  have p3: "position e3 = position e2" "rotationY e3 = rotationY e2"
    using enemyAttackHold_keeps(1,2) [of playerPos d e2] by (simp_all add: ho)
  have p4: "position e4 = position e3" "rotationY e4 = rotationY e3"
    using enemyRetarget_keeps(1,2) [of rnd d' e3 i'] by (simp_all add: re)
  show "position (fst (enemyDecide delta playerPos towers rnd (enemy, smoke, i))) = position enemy"
    "rotationY (fst (enemyDecide delta playerPos towers rnd (enemy, smoke, i))) = rotationY enemy"
    using dec p2 p3 p4 by simp_all
qed

lemma enemyMovement_attacking:
  "aiState enemy = ATTACKING_PLAYER \<Longrightarrow> isAttackingVisual enemy \<Longrightarrow>
     position (enemyMovement delta enemy) = position enemy
     \<and> rotationY (enemyMovement delta enemy) = rotationY enemy
     \<and> walkAnimationTime (enemyMovement delta enemy) = 0
     \<and> \<not> isMoving (enemyMovement delta enemy)"
  by (simp add: enemyMovement_def Let_def)

lemma enemyMovement_rollback:
  "outsideArena (enemyTentativePosition delta enemy) \<Longrightarrow>
     position (enemyMovement delta enemy) = position enemy"
  by (simp add: enemyMovement_def Let_def)

lemma enemyLogic_fst:
  "fst (enemyLogic delta playerPos towers rnd s)
     = enemyMovement delta (fst (enemyDecide delta playerPos towers rnd s))"
  by (simp add: enemyLogic_def split: prod.splits)

lemma playerLogic_position:
  "position (playerState (fst (playerLogic delta joyInput cameraDir cameraUp refs))) =
     (if outsideArena (playerTentativePosition delta joyInput cameraDir cameraUp refs)
      then position (playerState refs)
      else playerTentativePosition delta joyInput cameraDir cameraUp refs)"
  by (simp add: playerLogic_def playerAttackEffect_def Let_def split: prod.splits)

lemmas scene_consts =
  mapRadius_def blueFountainPosition_def redFountainPosition_def CHARACTER_BASE_Y_def
  ENEMY_MOVE_SPEED_def ENEMY_ROAM_TARGET_UPDATE_MIN_INTERVAL_def
  ENEMY_ROAM_TARGET_UPDATE_MAX_INTERVAL_def ENEMY_TARGET_REACH_THRESHOLD_def
  ENEMY_DETECTION_RANGE_SQR_def ENEMY_ATTACK_RANGE_SQR_def ENEMY_ATTACK_COOLDOWN_def
  ENEMY_ATTACK_EFFECT_DURATION_def TOWER_AVOIDANCE_RANGE_ENEMY_SQR_def
  FLEE_DISTANCE_FROM_TOWER_def

lemmas vec_ops =
  vec3_def add_def sub_def multiplyScalar_def addScaledVector_def lengthSq_def
  distanceToSquared_def normalize_def crossVectors_def


lemma enemyAttackVisual_flag:
  "isAttackingVisual (enemyAttackVisual delta enemy) \<Longrightarrow> isAttackingVisual enemy"
  by (simp add: enemyAttackVisual_def Let_def split: if_splits)

lemma enemyEvaluate_threat:
  "towerThreat (position enemy) towers = Some p \<Longrightarrow>
     newAiState (fst (enemyEvaluate playerPos towers rnd (enemy, smoke, i))) = FLEEING_TOWER
     \<and> isAttackingVisual (fst (snd (enemyEvaluate playerPos towers rnd (enemy, smoke, i))))
         = isAttackingVisual enemy"
  by (simp add: enemyEvaluate_def Let_def)

lemma enemyEvaluate_no_threat:
  "towerThreat (position enemy) towers = None \<Longrightarrow>
   isAttackingVisual (fst (snd (enemyEvaluate playerPos towers rnd (enemy, smoke, i)))) \<Longrightarrow>
   aiState enemy = ATTACKING_PLAYER \<or> \<not> isAttackingVisual enemy \<Longrightarrow>
     newAiState (fst (enemyEvaluate playerPos towers rnd (enemy, smoke, i))) = ATTACKING_PLAYER"
  by (auto simp: enemyEvaluate_def Let_def split: prod.splits if_splits)

lemma enemyAttackHold_visual:
  "isAttackingVisual enemy \<Longrightarrow> fst (enemyAttackHold playerPos (d, enemy)) = d"
  by (simp add: enemyAttackHold_def Let_def)

lemma movement_time_state:
  assumes inv: "attackInv towers enemy"
      and vis: "isAttackingVisual (fst (enemyDecide delta playerPos towers rnd (enemy, smoke, i)))"
  shows "aiState (fst (enemyDecide delta playerPos towers rnd (enemy, smoke, i))) = ATTACKING_PLAYER
         \<and> towerThreat (position enemy) towers = None"
proof -
  define e1 where "e1 = enemyAttackVisual delta (enemyTimers delta enemy)"
  obtain d e2 smoke' i' where ev:
    "enemyEvaluate playerPos towers rnd (e1, smoke, i) = (d, e2, smoke', i')"
    by (metis prod_cases4)
  obtain d' e3 where ho: "enemyAttackHold playerPos (d, e2) = (d', e3)"
    by (metis surj_pair)
  obtain e4 i'' where re: "enemyRetarget rnd d' (e3, i') = (e4, i'')"
    by (metis surj_pair)
  have dec: "fst (enemyDecide delta playerPos towers rnd (enemy, smoke, i)) = e4"
    by (simp add: enemyDecide_def ev [unfolded e1_def] ho re)
  have v3: "isAttackingVisual e3 = isAttackingVisual e2"
    using enemyAttackHold_keeps(4) [of playerPos d e2] by (simp add: ho)
  have v4: "isAttackingVisual e4 = isAttackingVisual e3" and a4: "aiState e4 = newAiState d'"
    using enemyRetarget_keeps(4,5) [of rnd d' e3 i'] by (simp_all add: re)
  from vis dec v3 v4 have v2: "isAttackingVisual e2" by simp
  have p1: "position e1 = position enemy" and a1: "aiState e1 = aiState enemy"
    by (simp_all add: e1_def enemyAttackVisual_keeps enemyTimers_keeps)
  have f1: "isAttackingVisual e1 \<Longrightarrow> isAttackingVisual enemy"
    unfolding e1_def using enemyAttackVisual_flag [of delta "enemyTimers delta enemy"]
    by (simp add: enemyTimers_keeps)
  have nothreat: "towerThreat (position enemy) towers = None"
  proof (cases "towerThreat (position enemy) towers")
    case None
    then show ?thesis .
  next
    case (Some p)
    with enemyEvaluate_threat [of e1 towers p playerPos rnd smoke i] ev p1 v2
    have "isAttackingVisual e1" by simp
    then have "isAttackingVisual enemy" by (rule f1)
    with inv Some show ?thesis by (simp add: attackInv_def)
  qed
  have "aiState e1 = ATTACKING_PLAYER \<or> \<not> isAttackingVisual e1"
    using inv f1 a1 by (auto simp: attackInv_def)
  with enemyEvaluate_no_threat [of e1 towers playerPos rnd smoke i] nothreat p1 v2 ev
  have "newAiState d = ATTACKING_PLAYER" by simp
  moreover have "d' = d" using enemyAttackHold_visual [OF v2, of playerPos d] ho by simp
  ultimately show ?thesis using a4 dec nothreat by simp
qed

lemma enemyMovement_flag:
  "isAttackingVisual (enemyMovement delta enemy) = isAttackingVisual enemy"
  "aiState (enemyMovement delta enemy) = aiState enemy"
  by (simp_all add: enemyMovement_def Let_def)

lemma attackInv_enemyLogic:
  assumes inv: "attackInv towers enemy"
  shows "attackInv towers (fst (enemyLogic delta playerPos towers rnd (enemy, smoke, i)))"
proof (cases "isAttackingVisual (fst (enemyDecide delta playerPos towers rnd (enemy, smoke, i)))")
  case False
  then show ?thesis by (simp add: attackInv_def enemyLogic_fst enemyMovement_flag)
next
  case True
  from movement_time_state [OF inv True]
  have a: "aiState (fst (enemyDecide delta playerPos towers rnd (enemy, smoke, i))) = ATTACKING_PLAYER"
    and t: "towerThreat (position enemy) towers = None" by simp_all
  from enemyMovement_attacking [OF a True, of delta]
  have "position (fst (enemyLogic delta playerPos towers rnd (enemy, smoke, i))) = position enemy"
    by (simp add: enemyLogic_fst enemyDecide_keeps)
  with a t show ?thesis by (simp add: attackInv_def enemyLogic_fst enemyMovement_flag)
qed

lemma attackInv_initial: "attackInv towers (fst (initialEnemyState rnd i))"
  by (simp add: attackInv_def initialEnemyState_def split: prod.splits)


text \<open>
  The gate of the movement and the invariant. In a frame in which, at movement time, the
  attack-visual flag is active and the state is \<open>ATTACKING_PLAYER\<close>, the enemy keeps its
  position and its facing angle, and the walk-bob time is set to 0. Under \<open>attackInv\<close>
  the flag at movement time implies that state; every frame keeps \<open>attackInv\<close>, and it
  holds of the enemy the setup creates.
\<close>

lemma attack_visual_gate:
  "(aiState (fst (enemyDecide delta playerPos towers rnd (enemy, smoke, i))) = ATTACKING_PLAYER
    \<and> isAttackingVisual (fst (enemyDecide delta playerPos towers rnd (enemy, smoke, i))) \<longrightarrow>
      position (fst (enemyLogic delta playerPos towers rnd (enemy, smoke, i))) = position enemy
      \<and> rotationY (fst (enemyLogic delta playerPos towers rnd (enemy, smoke, i))) = rotationY enemy
      \<and> walkAnimationTime (fst (enemyLogic delta playerPos towers rnd (enemy, smoke, i))) = 0
      \<and> \<not> isMoving (fst (enemyLogic delta playerPos towers rnd (enemy, smoke, i))))
   \<and> (attackInv towers enemy
       \<and> isAttackingVisual (fst (enemyDecide delta playerPos towers rnd (enemy, smoke, i))) \<longrightarrow>
      aiState (fst (enemyDecide delta playerPos towers rnd (enemy, smoke, i))) = ATTACKING_PLAYER
      \<and> position (fst (enemyLogic delta playerPos towers rnd (enemy, smoke, i))) = position enemy
      \<and> rotationY (fst (enemyLogic delta playerPos towers rnd (enemy, smoke, i))) = rotationY enemy
      \<and> walkAnimationTime (fst (enemyLogic delta playerPos towers rnd (enemy, smoke, i))) = 0)
   \<and> (attackInv towers enemy \<longrightarrow>
        attackInv towers (fst (enemyLogic delta playerPos towers rnd (enemy, smoke, i))))
   \<and> attackInv towers (fst (initialEnemyState rnd' j))"
proof -
  let ?em = "fst (enemyDecide delta playerPos towers rnd (enemy, smoke, i))"
  have gate: "aiState ?em = ATTACKING_PLAYER \<and> isAttackingVisual ?em \<longrightarrow>
      position (fst (enemyLogic delta playerPos towers rnd (enemy, smoke, i))) = position enemy
      \<and> rotationY (fst (enemyLogic delta playerPos towers rnd (enemy, smoke, i))) = rotationY enemy
      \<and> walkAnimationTime (fst (enemyLogic delta playerPos towers rnd (enemy, smoke, i))) = 0
      \<and> \<not> isMoving (fst (enemyLogic delta playerPos towers rnd (enemy, smoke, i)))"
    using enemyMovement_attacking [of ?em delta]
    by (simp add: enemyLogic_fst enemyDecide_keeps)
  have run: "attackInv towers enemy \<and> isAttackingVisual ?em \<longrightarrow> aiState ?em = ATTACKING_PLAYER"
    using movement_time_state [of towers enemy delta playerPos rnd smoke i] by blast
  have keep: "attackInv towers enemy \<longrightarrow>
        attackInv towers (fst (enemyLogic delta playerPos towers rnd (enemy, smoke, i)))"
    using attackInv_enemyLogic by blast
  from gate run keep attackInv_initial [of towers rnd' j] show ?thesis by blast
qed

lemma enemyReach_attackInv: "enemyReach towers enemy \<Longrightarrow> attackInv towers enemy"
  by (induction rule: enemyReach.induct) (simp_all add: attackInv_initial attackInv_enemyLogic)

section \<open>The arena boundary\<close>

lemma enemyDecide_roaming_on:
  assumes "aiState e = ROAMING" "\<not> isAttackingVisual e"
      and "towerThreat (position e) towers = None"
      and "ENEMY_DETECTION_RANGE_SQR \<le> distanceToSquared (position e) playerPos"
      and "delta < roamTimer e"
      and "ENEMY_TARGET_REACH_THRESHOLD ^ 2 \<le> distanceToSquared (position e) (currentTarget e)"
  shows "fst (enemyDecide delta playerPos towers rnd (e, smoke, i))
           = e\<lparr>attackCooldownTimer := max 0 (attackCooldownTimer e - delta),
                roamTimer := max 0 (roamTimer e - delta),
                aiState := ROAMING, currentTarget := currentTarget e\<rparr>"
proof -
  have far: "\<not> distanceToSquared (position e) playerPos < ENEMY_ATTACK_RANGE_SQR"
    "\<not> distanceToSquared (position e) playerPos < ENEMY_DETECTION_RANGE_SQR"
    using assms(4) by (simp_all add: ENEMY_DETECTION_RANGE_SQR_def ENEMY_ATTACK_RANGE_SQR_def power2_eq_square)
  have near: "\<not> distanceToSquared (position e) (currentTarget e) < ENEMY_TARGET_REACH_THRESHOLD ^ 2"
    using assms(6) by simp
  have timer: "\<not> max 0 (roamTimer e - delta) \<le> 0" using assms(5) by simp
  show ?thesis
    using assms(1,2,3) far near timer
    by (simp add: enemyDecide_def enemyTimers_def enemyAttackVisual_def enemyEvaluate_def
          enemyAttackHold_def enemyRetarget_def Let_def)
qed


lemma initialEnemyState_half:
  "fst (initialEnemyState (\<lambda>_. 1 / 2) 0) =
     \<lparr>meshRef = (createCharacterMesh redTeamColor)
                        \<lparr>meshPosition := (redFountainPosition\<lparr>vy := CHARACTER_BASE_Y\<rparr>),
                         meshRotationY := pi\<rparr>,
           position = redFountainPosition,
           rotationY = pi,
           originalColor = redTeamColor,
           currentTarget = vec3 0 0 0,
           roamTimer = 6,
           isMoving = False,
           walkAnimationTime = 0,
           aiState = ROAMING,
           attackCooldownTimer = 0,
           isAttackingVisual = False,
           attackEffectTimer = 0\<rparr>"
  by (simp add: initialEnemyState_def getRandomRoamTarget_half
        ENEMY_ROAM_TARGET_UPDATE_MIN_INTERVAL_def ENEMY_ROAM_TARGET_UPDATE_MAX_INTERVAL_def)

lemma enemyMovement_rotationY:
  "(aiState enemy \<noteq> ATTACKING_PLAYER \<or> \<not> isAttackingVisual enemy) \<Longrightarrow>
   lengthSq (sub (currentTarget enemy) (position enemy)) > 0.01 \<Longrightarrow>
     rotationY (enemyMovement delta enemy) =
       rotationY enemy
       + shortestAngleDiff (rotationY enemy)
           (atan2 (vx (normalize (sub (currentTarget enemy) (position enemy))))
                  (vz (normalize (sub (currentTarget enemy) (position enemy)))))
         * ENEMY_ROTATION_SPEED * delta"
  by (auto simp: enemyMovement_def Let_def)

lemma playerLogic_rotationY:
  "rotationY (playerState (fst (playerLogic delta joyInput cameraDir cameraUp refs))) =
     rotationY (playerState refs)
     + shortestAngleDiff (rotationY (playerState refs))
         (snd (playerMoveVector joyInput (normalize (cameraDir\<lparr>vy := 0\<rparr>)) cameraUp
                 (rotationY (playerState refs))))
       * (pi * 2) * delta"
  by (simp add: playerLogic_def playerAttackEffect_def Let_def split: prod.splits)

lemma shortestAngleDiff_0_pi: "shortestAngleDiff 0 pi = pi"
  by (simp add: shortestAngleDiff_def js_rem_def js_trunc_def Let_def)

lemma shortestAngleDiff_pi_half: "shortestAngleDiff pi (pi / 2) = - pi / 2"
proof -
  have q: "(pi / 2 - pi) / (pi * 2) = - (1 / 4)" by (simp add: field_simps)
  have c: "\<lceil>- (1 / 4) :: real\<rceil> = 0" by (simp add: ceiling_eq_iff)
  have r: "js_rem (pi / 2 - pi) (pi * 2) = - pi / 2"
    unfolding js_rem_def js_trunc_def q using c by simp
  have n: "\<not> - pi / 2 > pi" "\<not> - pi / 2 < - pi"
    using pi_gt_zero by linarith+
  show ?thesis
    unfolding shortestAngleDiff_def Let_def r by (simp only: n if_False)
qed

lemma player_moveVector_w:
  "playerMoveVector \<lparr>jx = 0, jy = - 1, active = True\<rparr>
      (normalize ((vec3 0 (- 1) (- 1))\<lparr>vy := 0\<rparr>)) (vec3 0 1 0) r
    = (vec3 0 0 (- 1), pi)"
  by (simp add: playerMoveVector_def vec_ops atan2_def Let_def)

text \<open>
  C5. For the player and for the enemy, in every frame: if the tentative position of
  the frame (the position advanced by the movement vector) is beyond the arena's
  boundary, \<open>|x| + |z| > 0.98 \<times> mapRadius\<close>, the position after the frame is the position
  before it, whole: no coordinate is clamped or kept from the step. The facing angle is
  written before the test and is not rolled back.
\<close>

theorem boundary_rollback:
  "(outsideArena (playerTentativePosition delta joyInput cameraDir cameraUp refs) \<longrightarrow>
      position (playerState (fst (playerLogic delta joyInput cameraDir cameraUp refs)))
        = position (playerState refs))
   \<and> (outsideArena (enemyTentativePosition delta
                      (fst (enemyDecide delta playerPos towers rnd (enemy, smoke, i)))) \<longrightarrow>
      position (fst (enemyLogic delta playerPos towers rnd (enemy, smoke, i))) = position enemy)"
  by (simp add: playerLogic_position enemyLogic_fst enemyMovement_rollback enemyDecide_keeps)

text \<open>
  The player at \<open>(0, 0, -48.9)\<close> walking forward (key \<open>w\<close>, camera looking along \<open>-z\<close>)
  and the enemy at \<open>(24.5, 0, 24.4)\<close> roaming towards \<open>(25.5, 0, 24.4)\<close>, in a frame of
  0.1 s: both tentative positions are beyond the boundary, both positions stay, and both
  facing angles change (from 0 to \<open>\<pi>\<^sup>2/5\<close>, and from \<open>\<pi>\<close> to \<open>\<pi> - 0.09 \<pi>\<^sup>2\<close>).
\<close>

theorem boundary_rollback_witness:
  "outsideArena (playerTentativePosition 0.1 \<lparr>jx = 0, jy = - 1, active = True\<rparr>
      (vec3 0 (- 1) (- 1)) (vec3 0 1 0)
      (initialPlayerRefs\<lparr>playerState := (playerState initialPlayerRefs)
                                             \<lparr>position := vec3 0 0 (- 48.9)\<rparr>\<rparr>))
   \<and> position (playerState (fst (playerLogic 0.1 \<lparr>jx = 0, jy = - 1, active = True\<rparr>
      (vec3 0 (- 1) (- 1)) (vec3 0 1 0)
      (initialPlayerRefs\<lparr>playerState := (playerState initialPlayerRefs)
                                             \<lparr>position := vec3 0 0 (- 48.9)\<rparr>\<rparr>))))
       = vec3 0 0 (- 48.9)
   \<and> rotationY (playerState initialPlayerRefs) = 0
   \<and> rotationY (playerState (fst (playerLogic 0.1 \<lparr>jx = 0, jy = - 1, active = True\<rparr>
      (vec3 0 (- 1) (- 1)) (vec3 0 1 0)
      (initialPlayerRefs\<lparr>playerState := (playerState initialPlayerRefs)
                                             \<lparr>position := vec3 0 0 (- 48.9)\<rparr>\<rparr>))))
       = pi * pi / 5
   \<and> outsideArena (enemyTentativePosition 0.1
        (fst (enemyDecide 0.1 blueFountainPosition blueTowers (\<lambda>_. 1 / 2)
          ((fst (initialEnemyState (\<lambda>_. 1 / 2) 0))
             \<lparr>position := vec3 24.5 0 24.4, currentTarget := vec3 25.5 0 24.4, roamTimer := 5\<rparr>,
           initialSmokeState, 0))))
   \<and> position (fst (enemyLogic 0.1 blueFountainPosition blueTowers (\<lambda>_. 1 / 2)
          ((fst (initialEnemyState (\<lambda>_. 1 / 2) 0))
             \<lparr>position := vec3 24.5 0 24.4, currentTarget := vec3 25.5 0 24.4, roamTimer := 5\<rparr>,
           initialSmokeState, 0)))
       = vec3 24.5 0 24.4
   \<and> rotationY (fst (initialEnemyState (\<lambda>_. 1 / 2) 0)) = pi
   \<and> rotationY (fst (enemyLogic 0.1 blueFountainPosition blueTowers (\<lambda>_. 1 / 2)
          ((fst (initialEnemyState (\<lambda>_. 1 / 2) 0))
             \<lparr>position := vec3 24.5 0 24.4, currentTarget := vec3 25.5 0 24.4, roamTimer := 5\<rparr>,
           initialSmokeState, 0)))
       = pi - pi * pi * 9 / 100"
proof -
  let ?p = "initialPlayerRefs\<lparr>playerState := (playerState initialPlayerRefs)
                                             \<lparr>position := vec3 0 0 (- 48.9)\<rparr>\<rparr>"
  let ?j = "\<lparr>jx = 0, jy = - 1, active = True\<rparr>"
  let ?e = "(fst (initialEnemyState (\<lambda>_. 1 / 2) 0))
         \<lparr>position := vec3 24.5 0 24.4, currentTarget := vec3 25.5 0 24.4, roamTimer := 5\<rparr>"
  have pt: "playerTentativePosition 0.1 ?j (vec3 0 (- 1) (- 1)) (vec3 0 1 0) ?p = vec3 0 0 (- 49.3)"
    by (simp add: playerTentativePosition_def player_moveVector_w Let_def)
       (simp add: initialPlayerRefs_def vec_ops)
  have pout: "outsideArena (playerTentativePosition 0.1 ?j (vec3 0 (- 1) (- 1)) (vec3 0 1 0) ?p)"
    unfolding pt by (simp add: outsideArena_def vec3_def mapRadius_def)
  have prot: "rotationY (playerState (fst (playerLogic 0.1 ?j (vec3 0 (- 1) (- 1)) (vec3 0 1 0) ?p)))
                = pi * pi / 5"
    unfolding playerLogic_rotationY player_moveVector_w
    by (simp add: initialPlayerRefs_def shortestAngleDiff_0_pi)
  have 1: "aiState ?e = ROAMING" "\<not> isAttackingVisual ?e" "0.1 < roamTimer ?e"
    by (simp_all add: initialEnemyState_half)
  have 2: "towerThreat (position ?e) blueTowers = None"
    by (simp add: towerThreat_def blueTowers_def vec_ops scene_consts Let_def)
  have 3: "ENEMY_DETECTION_RANGE_SQR \<le> distanceToSquared (position ?e) blueFountainPosition"
    by (simp add: vec_ops scene_consts Let_def power2_eq_square)
  have 4: "ENEMY_TARGET_REACH_THRESHOLD ^ 2 \<le> distanceToSquared (position ?e) (currentTarget ?e)"
    by (simp add: vec_ops scene_consts Let_def power2_eq_square)
  note dec = enemyDecide_roaming_on [OF 1(1,2) 2 3 1(3) 4, of "\<lambda>_. 1 / 2" initialSmokeState 0]
  have et: "enemyTentativePosition 0.1
        (fst (enemyDecide 0.1 blueFountainPosition blueTowers (\<lambda>_. 1 / 2) (?e, initialSmokeState, 0)))
      = vec3 24.82 0 24.4"
    unfolding dec by (simp add: enemyTentativePosition_def vec_ops scene_consts Let_def)
  have eout: "outsideArena (enemyTentativePosition 0.1
        (fst (enemyDecide 0.1 blueFountainPosition blueTowers (\<lambda>_. 1 / 2) (?e, initialSmokeState, 0))))"
    unfolding et by (simp add: outsideArena_def vec3_def mapRadius_def)
  have erot: "rotationY (fst (enemyLogic 0.1 blueFountainPosition blueTowers (\<lambda>_. 1 / 2)
                 (?e, initialSmokeState, 0))) = pi - pi * pi * 9 / 100"
    unfolding enemyLogic_fst dec
    by (subst enemyMovement_rotationY)
       (simp_all add: initialEnemyState_half vec_ops atan2_def shortestAngleDiff_pi_half
          ENEMY_ROTATION_SPEED_def field_simps)
  have pos: "position (playerState ?p) = vec3 0 0 (- 48.9)" "position ?e = vec3 24.5 0 24.4"
    "rotationY (playerState initialPlayerRefs) = 0"
    "rotationY (fst (initialEnemyState (\<lambda>_. 1 / 2) 0)) = pi"
    by (simp_all add: initialPlayerRefs_def initialEnemyState_half)
  from pout eout prot erot pos
    boundary_rollback [where delta = "0.1" and joyInput = ?j and cameraDir = "vec3 0 (- 1) (- 1)"
      and cameraUp = "vec3 0 1 0" and refs = ?p and playerPos = blueFountainPosition
      and towers = blueTowers and rnd = "\<lambda>_. 1 / 2" and enemy = ?e
      and smoke = initialSmokeState and i = 0]
  show ?thesis by simp
qed

section \<open>The start of the enemy's attack\<close>

lemma enemyEvaluate_attack:
  assumes t: "towerThreat (position e) towers = None"
      and d: "distanceToSquared (position e) playerPos < ENEMY_ATTACK_RANGE_SQR"
      and c: "attackCooldownTimer e \<le> 0"
      and v: "\<not> isAttackingVisual e"
  shows "enemyEvaluate playerPos towers rnd (e, smoke, i) =
           (\<lparr>newAiState = ATTACKING_PLAYER, newTarget = playerPos,
             forceNewRoamTarget = (aiState e = FLEEING_TOWER)\<rparr>,
            e\<lparr>isAttackingVisual := True, attackEffectTimer := 0,
              attackCooldownTimer := ENEMY_ATTACK_COOLDOWN\<rparr>,
            emitSmokePuffs (position e) 0.8 rnd i smoke)"
proof (cases "aiState e = FLEEING_TOWER")
  case True
  then show ?thesis
    using t d c v by (simp add: enemyEvaluate_def Let_def case_prod_beta)
next
  case False
  then show ?thesis
    using t d c v by (simp add: enemyEvaluate_def Let_def case_prod_beta)
qed


lemma enemyAttackHold_started:
  "enemyAttackHold playerPos
     (\<lparr>newAiState = ATTACKING_PLAYER, newTarget = tgt, forceNewRoamTarget = f\<rparr>,
      e\<lparr>isAttackingVisual := True, attackEffectTimer := 0,
        attackCooldownTimer := ENEMY_ATTACK_COOLDOWN\<rparr>)
   = (\<lparr>newAiState = ATTACKING_PLAYER, newTarget = tgt, forceNewRoamTarget = f\<rparr>,
      e\<lparr>isAttackingVisual := True, attackEffectTimer := 0,
        attackCooldownTimer := ENEMY_ATTACK_COOLDOWN, isMoving := False\<rparr>)"
  by (simp add: enemyAttackHold_def Let_def ENEMY_ATTACK_EFFECT_DURATION_def)

lemma enemyDecide_attack_start:
  assumes t: "towerThreat (position enemy) towers = None"
      and d: "distanceToSquared (position enemy) playerPos < ENEMY_ATTACK_RANGE_SQR"
      and c: "attackCooldownTimer enemy \<le> delta"
      and v: "\<not> isAttackingVisual enemy"
      and em: "emitSmokePuffs (position enemy) 0.8 rnd i smoke = (smoke', i')"
      and re: "enemyRetarget rnd
                 \<lparr>newAiState = ATTACKING_PLAYER, newTarget = playerPos,
                  forceNewRoamTarget = (aiState enemy = FLEEING_TOWER)\<rparr>
                 ((enemyTimers delta enemy)
                    \<lparr>isAttackingVisual := True, attackEffectTimer := 0,
                     attackCooldownTimer := ENEMY_ATTACK_COOLDOWN, isMoving := False\<rparr>, i')
               = (e4, i'')"
  shows "enemyDecide delta playerPos towers rnd (enemy, smoke, i) = (e4, smoke', i'')"
proof -
  define e1 where "e1 = enemyTimers delta enemy"
  have vis: "enemyAttackVisual delta e1 = e1"
    using v by (simp add: enemyAttackVisual_def e1_def enemyTimers_def)
  have p1: "position e1 = position enemy" "aiState e1 = aiState enemy"
    "\<not> isAttackingVisual e1" "attackCooldownTimer e1 \<le> 0"
    using v c by (simp_all add: e1_def enemyTimers_def)
  have ev: "enemyEvaluate playerPos towers rnd (e1, smoke, i) =
           (\<lparr>newAiState = ATTACKING_PLAYER, newTarget = playerPos,
             forceNewRoamTarget = (aiState enemy = FLEEING_TOWER)\<rparr>,
            e1\<lparr>isAttackingVisual := True, attackEffectTimer := 0,
               attackCooldownTimer := ENEMY_ATTACK_COOLDOWN\<rparr>,
            smoke', i')"
    using enemyEvaluate_attack [of e1 towers playerPos rnd smoke i] t d p1 em by simp
  show ?thesis
    unfolding enemyDecide_def
    by (simp only: prod.case Let_def e1_def [symmetric] vis ev enemyAttackHold_started
          re [folded e1_def])
qed


lemma enemyMovement_attacking_eq:
  "aiState e = ATTACKING_PLAYER \<Longrightarrow> isAttackingVisual e \<Longrightarrow>
     aiState (enemyMovement delta e) = ATTACKING_PLAYER
     \<and> isAttackingVisual (enemyMovement delta e)
     \<and> attackEffectTimer (enemyMovement delta e) = attackEffectTimer e
     \<and> attackCooldownTimer (enemyMovement delta e) = attackCooldownTimer e
     \<and> currentTarget (enemyMovement delta e) = currentTarget e
     \<and> position (enemyMovement delta e) = position e"
  by (simp add: enemyMovement_def Let_def)

text \<open>
  The start of an attack. With no hostile tower in range, the player closer than the
  attack range, the cooldown run out by the end of the frame's decrement and no attack
  visual playing, the frame puts the enemy in state \<open>ATTACKING_PLAYER\<close> with the visual
  started at 0 and the cooldown at \<open>ENEMY_ATTACK_COOLDOWN\<close>, leaves it in place, and
  calls \<open>emitSmokePuffs\<close> once at its position. The target it stores is the player's
  position unless the state before the frame was \<open>FLEEING_TOWER\<close>: then
  \<open>forceNewRoamTarget\<close>, set when the flight ended, is still set when the target is
  stored, and the target is a new roam target.
\<close>

lemma enemy_attack_start:
  assumes t: "towerThreat (position enemy) towers = None"
      and d: "distanceToSquared (position enemy) playerPos < ENEMY_ATTACK_RANGE_SQR"
      and c: "attackCooldownTimer enemy \<le> delta"
      and v: "\<not> isAttackingVisual enemy"
  shows "aiState (fst (enemyLogic delta playerPos towers rnd (enemy, smoke, i))) = ATTACKING_PLAYER
     \<and> isAttackingVisual (fst (enemyLogic delta playerPos towers rnd (enemy, smoke, i)))
     \<and> attackEffectTimer (fst (enemyLogic delta playerPos towers rnd (enemy, smoke, i))) = 0
     \<and> attackCooldownTimer (fst (enemyLogic delta playerPos towers rnd (enemy, smoke, i)))
           = ENEMY_ATTACK_COOLDOWN
     \<and> position (fst (enemyLogic delta playerPos towers rnd (enemy, smoke, i))) = position enemy
     \<and> fst (snd (enemyLogic delta playerPos towers rnd (enemy, smoke, i)))
           = fst (emitSmokePuffs (position enemy) 0.8 rnd i smoke)
     \<and> currentTarget (fst (enemyLogic delta playerPos towers rnd (enemy, smoke, i)))
           = (if aiState enemy = FLEEING_TOWER
              then fst (getRandomRoamTarget mapRadius (position enemy) blueFountainPosition
                          redFountainPosition rnd
                          (snd (emitSmokePuffs (position enemy) 0.8 rnd i smoke)))
              else playerPos)"
proof -
  obtain smoke' i' where em: "emitSmokePuffs (position enemy) 0.8 rnd i smoke = (smoke', i')"
    by (metis surj_pair)
  define e3 where "e3 = (enemyTimers delta enemy)
                    \<lparr>isAttackingVisual := True, attackEffectTimer := 0,
                     attackCooldownTimer := ENEMY_ATTACK_COOLDOWN, isMoving := False\<rparr>"
  obtain e4 i'' where re: "enemyRetarget rnd
                 \<lparr>newAiState = ATTACKING_PLAYER, newTarget = playerPos,
                  forceNewRoamTarget = (aiState enemy = FLEEING_TOWER)\<rparr> (e3, i') = (e4, i'')"
    by (metis surj_pair)
  have dec: "enemyDecide delta playerPos towers rnd (enemy, smoke, i) = (e4, smoke', i'')"
    by (rule enemyDecide_attack_start [OF t d c v em re [unfolded e3_def]])
  have p3: "position e3 = position enemy" "isAttackingVisual e3" "attackEffectTimer e3 = 0"
    "attackCooldownTimer e3 = ENEMY_ATTACK_COOLDOWN"
    by (simp_all add: e3_def enemyTimers_def)
  have e4: "aiState e4 = ATTACKING_PLAYER" "isAttackingVisual e4" "attackEffectTimer e4 = 0"
    "attackCooldownTimer e4 = ENEMY_ATTACK_COOLDOWN" "position e4 = position enemy"
    "currentTarget e4 = (if aiState enemy = FLEEING_TOWER
              then fst (getRandomRoamTarget mapRadius (position enemy) blueFountainPosition
                          redFountainPosition rnd i')
              else playerPos)"
    using re p3 by (auto simp: enemyRetarget_def case_prod_beta split: if_splits)
  have lg: "enemyLogic delta playerPos towers rnd (enemy, smoke, i)
              = (enemyMovement delta e4, smoke', i'')"
    by (simp add: enemyLogic_def dec)
  from enemyMovement_attacking_eq [OF e4(1,2), of delta] e4 em show ?thesis
    unfolding lg by simp
qed


text \<open>
  C3 at an input where the code departs from it. The enemy stands at \<open>(22.5, 0, 0.1)\<close>,
  just out of the range of the blue right tower it fled in the frame before (state
  \<open>FLEEING_TOWER\<close>), with cooldown 0 and no visual playing; the player is one unit away at
  \<open>(22.5, 0, 1.1)\<close>. The frame starts the attack, and the target it stores is the roam
  target \<open>(0, 0, 0)\<close> (with \<open>Math.random()\<close> returning 0.5), not the player's position.
\<close>

theorem attack_after_flee_takes_roam_target:
  "towerThreat (vec3 22.5 0 0.1) blueTowers = None
   \<and> distanceToSquared (vec3 22.5 0 0.1) (vec3 22.5 0 1.1) < 4.84
   \<and> attackCooldownTimer ((fst (initialEnemyState (\<lambda>_. 1 / 2) 0))
           \<lparr>position := vec3 22.5 0 0.1, aiState := FLEEING_TOWER\<rparr>) = 0
   \<and> isAttackingVisual ((fst (initialEnemyState (\<lambda>_. 1 / 2) 0))
           \<lparr>position := vec3 22.5 0 0.1, aiState := FLEEING_TOWER\<rparr>) = False
   \<and> aiState (fst (enemyLogic 0.1 (vec3 22.5 0 1.1) blueTowers (\<lambda>_. 1 / 2)
        ((fst (initialEnemyState (\<lambda>_. 1 / 2) 0))
           \<lparr>position := vec3 22.5 0 0.1, aiState := FLEEING_TOWER\<rparr>, initialSmokeState, 0)))
       = ATTACKING_PLAYER
   \<and> isAttackingVisual (fst (enemyLogic 0.1 (vec3 22.5 0 1.1) blueTowers (\<lambda>_. 1 / 2)
        ((fst (initialEnemyState (\<lambda>_. 1 / 2) 0))
           \<lparr>position := vec3 22.5 0 0.1, aiState := FLEEING_TOWER\<rparr>, initialSmokeState, 0)))
   \<and> currentTarget (fst (enemyLogic 0.1 (vec3 22.5 0 1.1) blueTowers (\<lambda>_. 1 / 2)
        ((fst (initialEnemyState (\<lambda>_. 1 / 2) 0))
           \<lparr>position := vec3 22.5 0 0.1, aiState := FLEEING_TOWER\<rparr>, initialSmokeState, 0)))
       = vec3 0 0 0
   \<and> vec3 0 0 0 \<noteq> vec3 22.5 0 1.1"
proof -
  let ?e = "(fst (initialEnemyState (\<lambda>_. 1 / 2) 0))
           \<lparr>position := vec3 22.5 0 0.1, aiState := FLEEING_TOWER\<rparr>"
  have t0: "towerThreat (vec3 22.5 0 0.1) blueTowers = None"
    by (simp add: towerThreat_def blueTowers_def vec_ops scene_consts Let_def)
  have d0: "distanceToSquared (vec3 22.5 0 0.1) (vec3 22.5 0 1.1) < 4.84"
    by (simp add: vec_ops)
  have t: "towerThreat (position ?e) blueTowers = None" using t0 by simp
  have d: "distanceToSquared (position ?e) (vec3 22.5 0 1.1) < ENEMY_ATTACK_RANGE_SQR"
    using d0 by (simp add: ENEMY_ATTACK_RANGE_SQR_def power2_eq_square)
  have c0: "attackCooldownTimer ?e = 0" and v: "\<not> isAttackingVisual ?e"
    and a: "aiState ?e = FLEEING_TOWER"
    by (simp_all add: initialEnemyState_half)
  have c: "attackCooldownTimer ?e \<le> 0.1" using c0 by simp
  note r = enemy_attack_start [OF t d c v, of "\<lambda>_. 1 / 2" initialSmokeState 0]
  have ne: "vec3 0 0 0 \<noteq> vec3 22.5 0 1.1" by (simp add: vec3_def)
  have tgt: "currentTarget (fst (enemyLogic 0.1 (vec3 22.5 0 1.1) blueTowers (\<lambda>_. 1 / 2)
        (?e, initialSmokeState, 0))) = vec3 0 0 0"
  proof -
    from r have "currentTarget (fst (enemyLogic 0.1 (vec3 22.5 0 1.1) blueTowers (\<lambda>_. 1 / 2)
        (?e, initialSmokeState, 0)))
      = (if aiState ?e = FLEEING_TOWER
         then fst (getRandomRoamTarget mapRadius (position ?e) blueFountainPosition
                     redFountainPosition (\<lambda>_. 1 / 2)
                     (snd (emitSmokePuffs (position ?e) 0.8 (\<lambda>_. 1 / 2) 0 initialSmokeState)))
         else vec3 22.5 0 1.1)" by blast
    also have "\<dots> = vec3 0 0 0"
      unfolding getRandomRoamTarget_half using a by simp
    finally show ?thesis .
  qed
  from t0 d0 c0 v r tgt ne show ?thesis by blast
qed

section \<open>The enemy during its attack visual\<close>

lemma enemyEvaluate_flag_kept:
  "isAttackingVisual e \<Longrightarrow>
     isAttackingVisual (fst (snd (enemyEvaluate playerPos towers rnd (e, smoke, i))))"
  by (simp add: enemyEvaluate_def Let_def split: option.splits)

lemma enemyAttackVisual_flag_kept:
  "isAttackingVisual e \<Longrightarrow> attackEffectTimer e + delta < ENEMY_ATTACK_EFFECT_DURATION \<Longrightarrow>
     isAttackingVisual (enemyAttackVisual delta e)"
  by (simp add: enemyAttackVisual_def Let_def)

lemma enemyDecide_flag_kept:
  assumes "isAttackingVisual e" "attackEffectTimer e + delta < ENEMY_ATTACK_EFFECT_DURATION"
  shows "isAttackingVisual (fst (enemyDecide delta playerPos towers rnd (e, smoke, i)))"
proof -
  define e1 where "e1 = enemyAttackVisual delta (enemyTimers delta e)"
  obtain d e2 smoke' i' where ev:
    "enemyEvaluate playerPos towers rnd (e1, smoke, i) = (d, e2, smoke', i')"
    by (metis prod_cases4)
  obtain d' e3 where ho: "enemyAttackHold playerPos (d, e2) = (d', e3)"
    by (metis surj_pair)
  obtain e4 i'' where re: "enemyRetarget rnd d' (e3, i') = (e4, i'')"
    by (metis surj_pair)
  have dec: "fst (enemyDecide delta playerPos towers rnd (e, smoke, i)) = e4"
    by (simp add: enemyDecide_def ev [unfolded e1_def] ho re)
  have "isAttackingVisual e1"
    unfolding e1_def using assms
    by (intro enemyAttackVisual_flag_kept) (simp_all add: enemyTimers_keeps)
  then have "isAttackingVisual e2"
    using enemyEvaluate_flag_kept [of e1 playerPos towers rnd smoke i] by (simp add: ev)
  then have "isAttackingVisual e3"
    using enemyAttackHold_keeps(4) [of playerPos d e2] by (simp add: ho)
  then have "isAttackingVisual e4"
    using enemyRetarget_keeps(4) [of rnd d' e3 i'] by (simp add: re)
  then show ?thesis by (simp add: dec)
qed

text \<open>
  C2. In every frame of every run (every enemy state a session can reach, with any
  elapsed time, player position and random numbers), if the attack-visual flag is active
  at movement time, then the frame leaves the enemy's position and facing angle
  unchanged, with no translation and no rotation; the walk-bob time does not advance (it
  is set to 0) and \<open>isMoving\<close> is cleared. No hypothesis is made on the state the priority
  evaluation selected: on a run the flag is active at movement time only in state
  \<open>ATTACKING_PLAYER\<close>, a tower-flee override never being selected while the visual plays.
\<close>

theorem attack_visual_holds_position:
  assumes "enemyReach towers enemy"
      and "isAttackingVisual (fst (enemyDecide delta playerPos towers rnd (enemy, smoke, i)))"
  shows "position (fst (enemyLogic delta playerPos towers rnd (enemy, smoke, i))) = position enemy
         \<and> rotationY (fst (enemyLogic delta playerPos towers rnd (enemy, smoke, i))) = rotationY enemy
         \<and> walkAnimationTime (fst (enemyLogic delta playerPos towers rnd (enemy, smoke, i))) = 0
         \<and> \<not> isMoving (fst (enemyLogic delta playerPos towers rnd (enemy, smoke, i)))"
proof -
  have inv: "attackInv towers enemy" using assms(1) by (rule enemyReach_attackInv)
  from movement_time_state [OF inv assms(2)]
  have a: "aiState (fst (enemyDecide delta playerPos towers rnd (enemy, smoke, i))) = ATTACKING_PLAYER"
    by simp
  from enemyMovement_attacking [OF a assms(2), of delta] show ?thesis
    by (simp add: enemyLogic_fst enemyDecide_keeps)
qed


text \<open>
  Two frames of 0.1 s from the enemy the setup creates, with the player one unit away:
  the first starts the attack, so the flag is active at its movement time; in the second
  the visual is 0.1 s old and the player has moved. In both the enemy stays at the red
  fountain, facing \<open>\<pi>\<close>.
\<close>

theorem attack_visual_holds_position_witness:
  "enemyReach blueTowers (fst (initialEnemyState (\<lambda>_. 1 / 2) 0))
   \<and> isAttackingVisual (fst (enemyDecide 0.1 (vec3 1 0 44) blueTowers (\<lambda>_. 1 / 2)
         (fst (initialEnemyState (\<lambda>_. 1 / 2) 0), initialSmokeState, 0)))
   \<and> position (fst (enemyLogic 0.1 (vec3 1 0 44) blueTowers (\<lambda>_. 1 / 2)
         (fst (initialEnemyState (\<lambda>_. 1 / 2) 0), initialSmokeState, 0))) = vec3 0 0 44
   \<and> rotationY (fst (enemyLogic 0.1 (vec3 1 0 44) blueTowers (\<lambda>_. 1 / 2)
         (fst (initialEnemyState (\<lambda>_. 1 / 2) 0), initialSmokeState, 0))) = pi
   \<and> enemyReach blueTowers (fst (enemyLogic 0.1 (vec3 1 0 44) blueTowers (\<lambda>_. 1 / 2)
         (fst (initialEnemyState (\<lambda>_. 1 / 2) 0), initialSmokeState, 0)))
   \<and> isAttackingVisual (fst (enemyDecide 0.1 (vec3 1.4 0 44) blueTowers (\<lambda>_. 1 / 2)
        (enemyLogic 0.1 (vec3 1 0 44) blueTowers (\<lambda>_. 1 / 2)
         (fst (initialEnemyState (\<lambda>_. 1 / 2) 0), initialSmokeState, 0))))
   \<and> position (fst (enemyLogic 0.1 (vec3 1.4 0 44) blueTowers (\<lambda>_. 1 / 2)
        (enemyLogic 0.1 (vec3 1 0 44) blueTowers (\<lambda>_. 1 / 2)
         (fst (initialEnemyState (\<lambda>_. 1 / 2) 0), initialSmokeState, 0)))) = vec3 0 0 44
   \<and> rotationY (fst (enemyLogic 0.1 (vec3 1.4 0 44) blueTowers (\<lambda>_. 1 / 2)
        (enemyLogic 0.1 (vec3 1 0 44) blueTowers (\<lambda>_. 1 / 2)
         (fst (initialEnemyState (\<lambda>_. 1 / 2) 0), initialSmokeState, 0)))) = pi
   \<and> walkAnimationTime (fst (enemyLogic 0.1 (vec3 1.4 0 44) blueTowers (\<lambda>_. 1 / 2)
        (enemyLogic 0.1 (vec3 1 0 44) blueTowers (\<lambda>_. 1 / 2)
         (fst (initialEnemyState (\<lambda>_. 1 / 2) 0), initialSmokeState, 0)))) = 0"
proof -
  let ?R = "\<lambda>_::nat. 1 / 2 :: real"
  let ?e0 = "fst (initialEnemyState ?R 0)"
  let ?s1 = "enemyLogic 0.1 (vec3 1 0 44) blueTowers ?R (?e0, initialSmokeState, 0)"
  have e0: "position ?e0 = vec3 0 0 44" "rotationY ?e0 = pi" "\<not> isAttackingVisual ?e0"
    "attackCooldownTimer ?e0 \<le> 0.1"
    by (simp_all add: initialEnemyState_half redFountainPosition_def mapRadius_def)
  have t: "towerThreat (position ?e0) blueTowers = None"
    unfolding e0(1) by (simp add: towerThreat_def blueTowers_def vec_ops scene_consts Let_def)
  have d: "distanceToSquared (position ?e0) (vec3 1 0 44) < ENEMY_ATTACK_RANGE_SQR"
    unfolding e0(1) by (simp add: vec_ops ENEMY_ATTACK_RANGE_SQR_def power2_eq_square)
  note st = enemy_attack_start [OF t d e0(4) e0(3), of ?R initialSmokeState 0]
  have r0: "enemyReach blueTowers ?e0" by (rule enemyReach.reach_created)
  have f1: "isAttackingVisual (fst (enemyDecide 0.1 (vec3 1 0 44) blueTowers ?R
                (?e0, initialSmokeState, 0)))"
    using st by (simp add: enemyLogic_fst enemyMovement_flag)
  note w1 = attack_visual_holds_position [OF r0 f1]
  have r1: "enemyReach blueTowers (fst ?s1)" using r0 by (rule enemyReach.reach_logic)
  have v1: "isAttackingVisual (fst ?s1)"
    "attackEffectTimer (fst ?s1) + 0.1 < ENEMY_ATTACK_EFFECT_DURATION"
    using st by (simp_all add: ENEMY_ATTACK_EFFECT_DURATION_def)
  have f2: "isAttackingVisual (fst (enemyDecide 0.1 (vec3 1.4 0 44) blueTowers ?R
                (fst ?s1, fst (snd ?s1), snd (snd ?s1))))"
    using v1 by (rule enemyDecide_flag_kept)
  note w2 = attack_visual_holds_position [OF r1 f2]
  from r0 f1 w1 r1 f2 w2 e0(1,2) show ?thesis by simp
qed

section \<open>The attack visuals\<close>

lemma playerAttackEffect_inactive:
  "\<not> playerAttackEffectActive refs \<Longrightarrow> playerAttackEffect delta refs = refs"
  by (simp add: playerAttackEffect_def)

lemma playerAttackEffect_run_inactive:
  "\<not> playerAttackEffectActive refs \<Longrightarrow> foldl (\<lambda>r d. playerAttackEffect d r) refs ds = refs"
  by (induction ds) (simp_all add: playerAttackEffect_inactive)

lemma playerAttackEffect_run:
  "playerAttackEffectActive refs \<Longrightarrow>
   playerAttackEffectTimer refs < PLAYER_ATTACK_EFFECT_DURATION \<Longrightarrow>
   PLAYER_ATTACK_EFFECT_DURATION \<le> playerAttackEffectTimer refs + sum_list ds \<Longrightarrow>
     \<not> playerAttackEffectActive (foldl (\<lambda>r d. playerAttackEffect d r) refs ds)
     \<and> material (meshRef (playerState (foldl (\<lambda>r d. playerAttackEffect d r) refs ds)))
         = \<lparr>color = originalColor (playerState refs), emissive = setHex 0, emissiveIntensity = 0\<rparr>"
proof (induction ds arbitrary: refs)
  case Nil
  then show ?case by simp
next
  case (Cons d ds)
  show ?case
  proof (cases "PLAYER_ATTACK_EFFECT_DURATION \<le> playerAttackEffectTimer refs + d")
    case True
    then have off: "\<not> playerAttackEffectActive (playerAttackEffect d refs)"
      and mat: "material (meshRef (playerState (playerAttackEffect d refs)))
         = \<lparr>color = originalColor (playerState refs), emissive = setHex 0, emissiveIntensity = 0\<rparr>"
      using Cons.prems(1) by (simp_all add: playerAttackEffect_def Let_def)
    show ?thesis
      using off mat by (simp add: playerAttackEffect_run_inactive)
  next
    case False
    then have st: "playerAttackEffect d refs = refs\<lparr>playerAttackEffectTimer := playerAttackEffectTimer refs + d\<rparr>"
      using Cons.prems(1) by (simp add: playerAttackEffect_def Let_def)
    have "playerAttackEffectActive (playerAttackEffect d refs)"
      "playerAttackEffectTimer (playerAttackEffect d refs) < PLAYER_ATTACK_EFFECT_DURATION"
      "PLAYER_ATTACK_EFFECT_DURATION \<le> playerAttackEffectTimer (playerAttackEffect d refs) + sum_list ds"
      using Cons.prems False unfolding st by simp_all
    from Cons.IH [OF this] show ?thesis
      by (simp add: st)
  qed
qed

lemma enemyAttackVisual_inactive:
  "\<not> isAttackingVisual enemy \<Longrightarrow> enemyAttackVisual delta enemy = enemy"
  by (simp add: enemyAttackVisual_def)

lemma enemyAttackVisual_run_inactive:
  "\<not> isAttackingVisual enemy \<Longrightarrow> foldl (\<lambda>e d. enemyAttackVisual d e) enemy ds = enemy"
  by (induction ds) (simp_all add: enemyAttackVisual_inactive)

lemma enemyAttackVisual_run:
  "isAttackingVisual enemy \<Longrightarrow>
   attackEffectTimer enemy < ENEMY_ATTACK_EFFECT_DURATION \<Longrightarrow>
   ENEMY_ATTACK_EFFECT_DURATION \<le> attackEffectTimer enemy + sum_list ds \<Longrightarrow>
     \<not> isAttackingVisual (foldl (\<lambda>e d. enemyAttackVisual d e) enemy ds)
     \<and> material (meshRef (foldl (\<lambda>e d. enemyAttackVisual d e) enemy ds))
         = \<lparr>color = originalColor enemy, emissive = setHex 0, emissiveIntensity = 0\<rparr>"
proof (induction ds arbitrary: enemy)
  case Nil
  then show ?case by simp
next
  case (Cons d ds)
  show ?case
  proof (cases "ENEMY_ATTACK_EFFECT_DURATION \<le> attackEffectTimer enemy + d")
    case True
    then have off: "\<not> isAttackingVisual (enemyAttackVisual d enemy)"
      and mat: "material (meshRef (enemyAttackVisual d enemy))
         = \<lparr>color = originalColor enemy, emissive = setHex 0, emissiveIntensity = 0\<rparr>"
      using Cons.prems(1) by (simp_all add: enemyAttackVisual_def Let_def)
    show ?thesis
      using off mat by (simp add: enemyAttackVisual_run_inactive)
  next
    case False
    have "isAttackingVisual (enemyAttackVisual d enemy)"
      "attackEffectTimer (enemyAttackVisual d enemy) < ENEMY_ATTACK_EFFECT_DURATION"
      "ENEMY_ATTACK_EFFECT_DURATION \<le> attackEffectTimer (enemyAttackVisual d enemy) + sum_list ds"
      "originalColor (enemyAttackVisual d enemy) = originalColor enemy"
      using Cons.prems False by (simp_all add: enemyAttackVisual_def Let_def)
    from Cons.IH [OF this(1,2,3)] this(4) show ?thesis by simp
  qed
qed

lemma attackTriggerEffect_started:
  "lastAttackTrigger refs < attackTrigger \<Longrightarrow>
     playerAttackEffectActive (fst (attackTriggerEffect attackTrigger rnd (refs, smoke, i)))
     \<and> playerAttackEffectTimer (fst (attackTriggerEffect attackTrigger rnd (refs, smoke, i))) = 0
     \<and> originalColor (playerState (fst (attackTriggerEffect attackTrigger rnd (refs, smoke, i))))
         = originalColor (playerState refs)
     \<and> material (meshRef (playerState (fst (attackTriggerEffect attackTrigger rnd (refs, smoke, i)))))
         = \<lparr>color = lerpColors (originalColor (playerState refs)) (setHex 16777215) 0.3,
            emissive = originalColor (playerState refs), emissiveIntensity = 0.7\<rparr>"
  by (simp add: attackTriggerEffect_def Let_def case_prod_beta)

lemma playerLogic_flash:
  "playerAttackEffectActive (fst (playerLogic delta joyInput cameraDir cameraUp refs))
     = playerAttackEffectActive (playerAttackEffect delta refs)"
  "playerAttackEffectTimer (fst (playerLogic delta joyInput cameraDir cameraUp refs))
     = playerAttackEffectTimer (playerAttackEffect delta refs)"
  "material (meshRef (playerState (fst (playerLogic delta joyInput cameraDir cameraUp refs))))
     = material (meshRef (playerState (playerAttackEffect delta refs)))"
  "originalColor (playerState (fst (playerLogic delta joyInput cameraDir cameraUp refs)))
     = originalColor (playerState refs)"
  by (simp_all add: playerLogic_def playerAttackEffect_def Let_def case_prod_beta)

lemma enemyMovement_material:
  "material (meshRef (enemyMovement delta enemy)) = material (meshRef enemy)"
  by (simp add: enemyMovement_def Let_def)

lemma enemyDecide_material:
  "material (meshRef (fst (enemyDecide delta playerPos towers rnd (enemy, smoke, i))))
     = material (meshRef (enemyAttackVisual delta enemy))"
proof -
  obtain d e2 smoke' i' where ev:
    "enemyEvaluate playerPos towers rnd (enemyAttackVisual delta (enemyTimers delta enemy), smoke, i)
       = (d, e2, smoke', i')"
    by (metis prod_cases4)
  obtain d' e3 where ho: "enemyAttackHold playerPos (d, e2) = (d', e3)"
    by (metis surj_pair)
  obtain e4 i'' where re: "enemyRetarget rnd d' (e3, i') = (e4, i'')"
    by (metis surj_pair)
  have dec: "fst (enemyDecide delta playerPos towers rnd (enemy, smoke, i)) = e4"
    by (simp add: enemyDecide_def ev ho re)
  have "meshRef e2 = meshRef (enemyAttackVisual delta (enemyTimers delta enemy))"
    using enemyEvaluate_keeps(3)
            [of playerPos towers rnd "enemyAttackVisual delta (enemyTimers delta enemy)" smoke i]
    by (simp add: ev)
  moreover have "meshRef e3 = meshRef e2"
    using enemyAttackHold_keeps(3) [of playerPos d e2] by (simp add: ho)
  moreover have "meshRef e4 = meshRef e3"
    using enemyRetarget_keeps(3) [of rnd d' e3 i'] by (simp add: re)
  moreover have "material (meshRef (enemyAttackVisual delta (enemyTimers delta enemy)))
                  = material (meshRef (enemyAttackVisual delta enemy))"
    by (simp add: enemyAttackVisual_def enemyTimers_def Let_def)
  ultimately show ?thesis using dec by simp
qed

lemma enemyLogic_material:
  "material (meshRef (fst (enemyLogic delta playerPos towers rnd (enemy, smoke, i))))
     = material (meshRef (enemyAttackVisual delta enemy))"
  by (simp add: enemyLogic_fst enemyMovement_material enemyDecide_material)


lemma playerLogic_lastAttackTrigger:
  "lastAttackTrigger (fst (playerLogic delta joyInput cameraDir cameraUp refs)) = lastAttackTrigger refs"
  by (simp add: playerLogic_def playerAttackEffect_def Let_def case_prod_beta)

text \<open>
  C7, as the code has it. Once an attack visual has started, over any frames whose
  \<open>\<Delta>t\<close> values sum to at least its duration (0.3 s for the player, 0.45 s for the
  enemy) it ends, and the material then holds a fixed baseline: the actor's
  \<open>originalColor\<close> as colour, black as emissive colour and emissive intensity 0. These are
  the values from before the attack exactly when the material held that baseline then.
  A frame writes the material of an actor only in its attack-visual block.
\<close>

theorem attack_visual_returns_to_baseline:
  "(lastAttackTrigger refs < attackTrigger \<and> PLAYER_ATTACK_EFFECT_DURATION \<le> sum_list ds \<longrightarrow>
      \<not> playerAttackEffectActive
          (foldl (\<lambda>r d. playerAttackEffect d r)
             (fst (attackTriggerEffect attackTrigger rnd (refs, smoke, i))) ds)
      \<and> material (meshRef (playerState
          (foldl (\<lambda>r d. playerAttackEffect d r)
             (fst (attackTriggerEffect attackTrigger rnd (refs, smoke, i))) ds)))
         = \<lparr>color = originalColor (playerState refs), emissive = setHex 0, emissiveIntensity = 0\<rparr>)
   \<and> (isAttackingVisual enemy \<and> attackEffectTimer enemy = 0
       \<and> ENEMY_ATTACK_EFFECT_DURATION \<le> sum_list es \<longrightarrow>
      \<not> isAttackingVisual (foldl (\<lambda>e d. enemyAttackVisual d e) enemy es)
      \<and> material (meshRef (foldl (\<lambda>e d. enemyAttackVisual d e) enemy es))
         = \<lparr>color = originalColor enemy, emissive = setHex 0, emissiveIntensity = 0\<rparr>)
   \<and> material (meshRef (playerState (fst (playerLogic delta joyInput cameraDir cameraUp refs))))
       = material (meshRef (playerState (playerAttackEffect delta refs)))
   \<and> material (meshRef (fst (enemyLogic delta playerPos towers rnd' (enemy, smoke, i))))
       = material (meshRef (enemyAttackVisual delta enemy))"
proof -
  have p: "\<not> playerAttackEffectActive
          (foldl (\<lambda>r d. playerAttackEffect d r)
             (fst (attackTriggerEffect attackTrigger rnd (refs, smoke, i))) ds)
      \<and> material (meshRef (playerState
          (foldl (\<lambda>r d. playerAttackEffect d r)
             (fst (attackTriggerEffect attackTrigger rnd (refs, smoke, i))) ds)))
         = \<lparr>color = originalColor (playerState refs), emissive = setHex 0, emissiveIntensity = 0\<rparr>"
    if h: "lastAttackTrigger refs < attackTrigger" "PLAYER_ATTACK_EFFECT_DURATION \<le> sum_list ds"
  proof -
    let ?r = "fst (attackTriggerEffect attackTrigger rnd (refs, smoke, i))"
    from attackTriggerEffect_started [OF h(1), of rnd smoke i]
    have a: "playerAttackEffectActive ?r" and t: "playerAttackEffectTimer ?r = 0"
      and o: "originalColor (playerState ?r) = originalColor (playerState refs)"
      by simp_all
    have "playerAttackEffectTimer ?r < PLAYER_ATTACK_EFFECT_DURATION"
      "PLAYER_ATTACK_EFFECT_DURATION \<le> playerAttackEffectTimer ?r + sum_list ds"
      using t h(2) by (simp_all add: PLAYER_ATTACK_EFFECT_DURATION_def)
    from playerAttackEffect_run [OF a this] o show ?thesis by simp
  qed
  have e: "\<not> isAttackingVisual (foldl (\<lambda>e d. enemyAttackVisual d e) enemy es)
      \<and> material (meshRef (foldl (\<lambda>e d. enemyAttackVisual d e) enemy es))
         = \<lparr>color = originalColor enemy, emissive = setHex 0, emissiveIntensity = 0\<rparr>"
    if h: "isAttackingVisual enemy" "attackEffectTimer enemy = 0"
          "ENEMY_ATTACK_EFFECT_DURATION \<le> sum_list es"
  proof -
    have "attackEffectTimer enemy < ENEMY_ATTACK_EFFECT_DURATION"
      "ENEMY_ATTACK_EFFECT_DURATION \<le> attackEffectTimer enemy + sum_list es"
      using h(2,3) by (simp_all add: ENEMY_ATTACK_EFFECT_DURATION_def)
    from enemyAttackVisual_run [OF h(1) this] show ?thesis .
  qed
  from p e playerLogic_flash(3) [of delta joyInput cameraDir cameraUp refs]
       enemyLogic_material [of delta playerPos towers rnd' enemy smoke i]
  show ?thesis by blast
qed

text \<open>
  The player's flash over frames of 0.1, 0.1 and 0.2 s, and the enemy's visual over
  frames of 0.2 and 0.3 s.
\<close>

theorem attack_visual_returns_to_baseline_witness:
  "lastAttackTrigger initialPlayerRefs < 1
   \<and> PLAYER_ATTACK_EFFECT_DURATION \<le> sum_list [0.1, 0.1, 0.2]
   \<and> material (meshRef (playerState
          (foldl (\<lambda>r d. playerAttackEffect d r)
             (fst (attackTriggerEffect 1 (\<lambda>_. 1 / 2) (initialPlayerRefs, initialSmokeState, 0)))
             [0.1, 0.1, 0.2])))
         = \<lparr>color = blueTeamColor, emissive = setHex 0, emissiveIntensity = 0\<rparr>
   \<and> isAttackingVisual ((fst (initialEnemyState (\<lambda>_. 1 / 2) 0))
          \<lparr>aiState := ATTACKING_PLAYER, isAttackingVisual := True\<rparr>)
   \<and> attackEffectTimer ((fst (initialEnemyState (\<lambda>_. 1 / 2) 0))
          \<lparr>aiState := ATTACKING_PLAYER, isAttackingVisual := True\<rparr>) = 0
   \<and> ENEMY_ATTACK_EFFECT_DURATION \<le> sum_list [0.2, 0.3]
   \<and> material (meshRef (foldl (\<lambda>e d. enemyAttackVisual d e)
          ((fst (initialEnemyState (\<lambda>_. 1 / 2) 0))
             \<lparr>aiState := ATTACKING_PLAYER, isAttackingVisual := True\<rparr>) [0.2, 0.3]))
         = \<lparr>color = redTeamColor, emissive = setHex 0, emissiveIntensity = 0\<rparr>"
proof -
  let ?e = "(fst (initialEnemyState (\<lambda>_. 1 / 2) 0))
          \<lparr>aiState := ATTACKING_PLAYER, isAttackingVisual := True\<rparr>"
  have hp: "lastAttackTrigger initialPlayerRefs < 1"
    "PLAYER_ATTACK_EFFECT_DURATION \<le> sum_list [0.1, 0.1, 0.2]"
    by (simp_all add: initialPlayerRefs_def PLAYER_ATTACK_EFFECT_DURATION_def)
  have he: "isAttackingVisual ?e" "attackEffectTimer ?e = 0"
    "ENEMY_ATTACK_EFFECT_DURATION \<le> sum_list [0.2, 0.3]"
    by (simp_all add: initialEnemyState_half ENEMY_ATTACK_EFFECT_DURATION_def)
  have oc: "originalColor (playerState initialPlayerRefs) = blueTeamColor"
    "originalColor ?e = redTeamColor"
    by (simp_all add: initialPlayerRefs_def initialEnemyState_half)
  from hp he oc attack_visual_returns_to_baseline
     [where refs = initialPlayerRefs and attackTrigger = 1 and ds = "[0.1, 0.1, 0.2]"
        and rnd = "\<lambda>_. 1 / 2" and smoke = initialSmokeState and i = 0
        and enemy = ?e and es = "[0.2, 0.3]"]
  show ?thesis by simp
qed

text \<open>
  C7 as stated fails. The material \<open>createCharacterMesh\<close> makes has emissive intensity 1;
  after the player's first attack and a frame of 0.3 s it is 0. And an attack triggered
  0.1 s into a flash starts from emissive intensity 0.7 and ends, 0.3 s later, at 0.
\<close>

theorem attack_visual_not_pre_attack_values_counterexample:
  "emissiveIntensity (material (meshRef (playerState initialPlayerRefs))) = 1
   \<and> PLAYER_ATTACK_EFFECT_DURATION \<le> sum_list [0.3]
   \<and> emissiveIntensity (material (meshRef (playerState
        (fst (playerLogic 0.3 initialJoystickData (vec3 0 (- 1) (- 1)) (vec3 0 1 0)
           (fst (attackTriggerEffect 1 (\<lambda>_. 1 / 2)
                   (initialPlayerRefs, initialSmokeState, 0)))))))) = 0
   \<and> emissiveIntensity (material (meshRef (playerState
        (fst (playerLogic 0.1 initialJoystickData (vec3 0 (- 1) (- 1)) (vec3 0 1 0)
           (fst (attackTriggerEffect 1 (\<lambda>_. 1 / 2)
                   (initialPlayerRefs, initialSmokeState, 0)))))))) = 0.7
   \<and> emissiveIntensity (material (meshRef (playerState
        (fst (playerLogic 0.3 initialJoystickData (vec3 0 (- 1) (- 1)) (vec3 0 1 0)
           (fst (attackTriggerEffect 2 (\<lambda>_. 1 / 2)
              (fst (playerLogic 0.1 initialJoystickData (vec3 0 (- 1) (- 1)) (vec3 0 1 0)
                 (fst (attackTriggerEffect 1 (\<lambda>_. 1 / 2)
                         (initialPlayerRefs, initialSmokeState, 0)))),
               initialSmokeState, 0)))))))) = 0"
proof -
  let ?D = "vec3 0 (- 1) (- 1)" and ?U = "vec3 0 1 0"
  let ?r1 = "fst (attackTriggerEffect 1 (\<lambda>_. 1 / 2) (initialPlayerRefs, initialSmokeState, 0))"
  let ?r2 = "fst (playerLogic 0.1 initialJoystickData ?D ?U ?r1)"
  let ?r3 = "fst (attackTriggerEffect 2 (\<lambda>_. 1 / 2) (?r2, initialSmokeState, 0))"
  have l0: "lastAttackTrigger initialPlayerRefs < 1" by (simp add: initialPlayerRefs_def)
  note s1 = attackTriggerEffect_started [OF l0, of "\<lambda>_. 1 / 2" initialSmokeState 0]
  have a: "emissiveIntensity (material (meshRef (playerState initialPlayerRefs))) = 1"
    by (simp add: initialPlayerRefs_def createCharacterMesh_def)
  have b: "PLAYER_ATTACK_EFFECT_DURATION \<le> sum_list [0.3]"
    by (simp add: PLAYER_ATTACK_EFFECT_DURATION_def)
  have c: "emissiveIntensity (material (meshRef (playerState
             (fst (playerLogic 0.3 initialJoystickData ?D ?U ?r1))))) = 0"
    unfolding playerLogic_flash(3) using s1
    by (simp add: playerAttackEffect_def Let_def PLAYER_ATTACK_EFFECT_DURATION_def)
  have d: "emissiveIntensity (material (meshRef (playerState ?r2))) = 0.7"
    unfolding playerLogic_flash(3) using s1
    by (simp add: playerAttackEffect_def Let_def PLAYER_ATTACK_EFFECT_DURATION_def)
  have l1: "lastAttackTrigger ?r1 = 1"
    using l0 by (simp add: attackTriggerEffect_def Let_def case_prod_beta)
  have l2: "lastAttackTrigger ?r2 < 2"
    unfolding playerLogic_lastAttackTrigger l1 by simp
  note s3 = attackTriggerEffect_started [OF l2, of "\<lambda>_. 1 / 2" initialSmokeState 0]
  have e: "emissiveIntensity (material (meshRef (playerState
             (fst (playerLogic 0.3 initialJoystickData ?D ?U ?r3))))) = 0"
    unfolding playerLogic_flash(3) using s3
    by (simp add: playerAttackEffect_def Let_def PLAYER_ATTACK_EFFECT_DURATION_def)
  from a b c d e show ?thesis by blast
qed

end
